theory Spec2Isabelle
  imports Complex_Main
begin

section \<open>JavaScript library functions used by the application\<close>

text \<open>
  Strings are \<open>char list\<close>. \<open>toLowerCase\<close> lowers the ASCII letters A..Z and leaves
  every other character as it is.
\<close>

definition lowerChar :: "char \<Rightarrow> char" where
  "lowerChar c =
     (case map_of (zip ''ABCDEFGHIJKLMNOPQRSTUVWXYZ'' ''abcdefghijklmnopqrstuvwxyz'') c of
        Some l \<Rightarrow> l
      | None \<Rightarrow> c)"

definition toLowerCase :: "string \<Rightarrow> string" where
  "toLowerCase s = map lowerChar s"

fun startsWith :: "string \<Rightarrow> string \<Rightarrow> bool" where
  "startsWith s [] = True"
| "startsWith [] (c # t) = False"
| "startsWith (a # s) (c # t) = (a = c \<and> startsWith s t)"

text \<open>\<open>s.includes(t)\<close>: \<open>t\<close> starts at some position of \<open>s\<close>.\<close>

fun includesStr :: "string \<Rightarrow> string \<Rightarrow> bool" where
  "includesStr [] t = (t = [])"
| "includesStr (a # s) t = (startsWith (a # s) t \<or> includesStr s t)"

text \<open>\<open>parts.join(sep)\<close> on an array of strings.\<close>

fun join :: "string \<Rightarrow> string list \<Rightarrow> string" where
  "join sep [] = []"
| "join sep [x] = x"
| "join sep (x # y # ys) = x @ sep @ join sep (y # ys)"

text \<open>
  Numbers are modelled as integers (integer-valued doubles); a template literal renders
  them in decimal.
\<close>

definition digitChar :: "nat \<Rightarrow> char" where
  "digitChar d = ''0123456789'' ! d"

fun showNat :: "nat \<Rightarrow> string" where
  "showNat n =
     (if n < 10 then [digitChar n]
      else showNat (n div 10) @ [digitChar (n mod 10)])"

declare showNat.simps [simp del]

definition numToString :: "int \<Rightarrow> string" where
  "numToString i = (if i < 0 then CHR ''-'' # showNat (nat (- i)) else showNat (nat i))"

text \<open>Truthiness of a possibly absent string and of a possibly absent number.\<close>

definition truthyStr :: "string option \<Rightarrow> bool" where
  "truthyStr v = (case v of None \<Rightarrow> False | Some s \<Rightarrow> s \<noteq> [])"

definition truthyNum :: "int option \<Rightarrow> bool" where
  "truthyNum v = (case v of None \<Rightarrow> False | Some n \<Rightarrow> n \<noteq> 0)"

text \<open>\<open>v || d\<close> for a possibly absent string \<open>v\<close>.\<close>

definition orElse :: "string option \<Rightarrow> string \<Rightarrow> string" where
  "orElse v d = (case v of None \<Rightarrow> d | Some s \<Rightarrow> if s = [] then d else s)"

section \<open>Stored documents\<close>

record location_data =
  latitude :: "int option"
  longitude :: "int option"
  accuracy :: "int option"
  city :: "string option"
  region :: "string option"
  country :: "string option"
  postal :: "string option"
  timezone :: "string option"

record device_details =
  userAgent :: "string option"
  screenResolution :: "string option"
  language :: "string option"
  deviceTimezone :: "string option"
  platform :: "string option"
  vendor :: "string option"
  cookiesEnabled :: bool
  doNotTrack :: "string option"
  online :: bool

record visitor_data =
  ip :: "string option"
  location :: "location_data option"
  deviceDetails :: "device_details option"
  timestamp :: string

text \<open>The shapes \<open>data.submittedAt\<close> is tested for when a document is read.\<close>

datatype stored_time =
    NoTime
  | HasToDate "int option"
  | IsDate "int option"
  | IsString string
  | IsNumber int
  | OtherTime

record doc_data =
  d_id :: string
  d_name :: "string option"
  d_email :: "string option"
  d_message :: "string option"
  d_submittedAt :: stored_time
  d_visitorData :: "visitor_data option"

section \<open>AdminDashboard: display helpers\<close>

definition pushIf :: "string option \<Rightarrow> string list \<Rightarrow> string list" where
  "pushIf v parts = (case v of None \<Rightarrow> parts | Some s \<Rightarrow> if s \<noteq> [] then parts @ [s] else parts)"

definition getLocationString :: "location_data option \<Rightarrow> string" where
  "getLocationString loc =
     (case loc of
        None \<Rightarrow> ''N/A''
      | Some l \<Rightarrow>
          (let parts = pushIf (country l) (pushIf (region l) (pushIf (city l) []))
           in if length parts > 0 then join '', '' parts else ''N/A''))"

definition getCoordinates :: "location_data option \<Rightarrow> string option" where
  "getCoordinates loc =
     (case loc of
        None \<Rightarrow> None
      | Some l \<Rightarrow>
          (if truthyNum (latitude l) \<and> truthyNum (longitude l)
           then (case (latitude l, longitude l) of
                   (Some la, Some lo) \<Rightarrow> Some (numToString la @ '', '' @ numToString lo)
                 | _ \<Rightarrow> None)
           else None))"

definition getGoogleMapsUrl :: "location_data option \<Rightarrow> string option" where
  "getGoogleMapsUrl loc =
     (case getCoordinates loc of
        Some coords \<Rightarrow>
          if coords \<noteq> [] then Some (''https://www.google.com/maps?q='' @ coords) else None
      | None \<Rightarrow> None)"

section \<open>AdminDashboard: the in-memory rows\<close>

record submission =
  s_id :: string
  s_name :: string
  s_email :: string
  s_message :: string
  s_submittedAt :: int
  s_ipAddress :: string
  s_location :: string
  s_coordinates :: "string option"
  s_googleMapsUrl :: "string option"
  s_deviceInfo :: string
  s_screenResolution :: string

text \<open>
  What the platform supplies: the rendering of a \<open>Date\<close> (given as epoch milliseconds)
  by \<open>toString\<close>, the parsing of a date string (\<open>None\<close> is an invalid date), the
  collation \<open>localeCompare\<close>, and the way \<open>Array.prototype.sort\<close> orders an array of
  64 rows or more (see \<open>sortBy\<close> below).
\<close>

record js_env =
  dateToString :: "int \<Rightarrow> string"
  parseDate :: "string \<Rightarrow> int option"
  localeCompare :: "string \<Rightarrow> string \<Rightarrow> int"
  sortLong :: "(submission \<Rightarrow> submission \<Rightarrow> int) \<Rightarrow> submission list \<Rightarrow> submission list"

text \<open>
  The date of a document as \<open>fetchSubmissions\<close> normalises it: \<open>now\<close> stands for
  \<open>new Date()\<close>; a number beyond the range of \<open>Date\<close> gives an invalid date.
\<close>

definition readSubmittedAt :: "js_env \<Rightarrow> int \<Rightarrow> stored_time \<Rightarrow> int" where
  "readSubmittedAt env now t =
     (let submittedAt =
        (case t of
           NoTime \<Rightarrow> None
         | HasToDate d \<Rightarrow> d
         | IsDate d \<Rightarrow> d
         | IsString s \<Rightarrow> if s = [] then None else parseDate env s
         | IsNumber n \<Rightarrow>
             if n = 0 then None
             else if \<bar>n\<bar> \<le> 8640000000000000 then Some n else None
         | OtherTime \<Rightarrow> None)
      in case submittedAt of None \<Rightarrow> now | Some d \<Rightarrow> d)"

definition docLocation :: "doc_data \<Rightarrow> location_data option" where
  "docLocation d = (case d_visitorData d of None \<Rightarrow> None | Some v \<Rightarrow> location v)"

definition docDevice :: "doc_data \<Rightarrow> device_details option" where
  "docDevice d = (case d_visitorData d of None \<Rightarrow> None | Some v \<Rightarrow> deviceDetails v)"

definition toSubmission :: "js_env \<Rightarrow> int \<Rightarrow> doc_data \<Rightarrow> submission" where
  "toSubmission env now d =
     \<lparr> s_id = d_id d,
       s_name = orElse (d_name d) [],
       s_email = orElse (d_email d) [],
       s_message = orElse (d_message d) [],
       s_submittedAt = readSubmittedAt env now (d_submittedAt d),
       s_ipAddress = orElse (case d_visitorData d of None \<Rightarrow> None | Some v \<Rightarrow> ip v) [],
       s_location = getLocationString (docLocation d),
       s_coordinates = getCoordinates (docLocation d),
       s_googleMapsUrl = getGoogleMapsUrl (docLocation d),
       s_deviceInfo = orElse (case docDevice d of None \<Rightarrow> None | Some dd \<Rightarrow> platform dd) [],
       s_screenResolution =
         orElse (case docDevice d of None \<Rightarrow> None | Some dd \<Rightarrow> screenResolution dd) [] \<rparr>"

text \<open>The values a row's property can hold, and \<open>submission[key]\<close>.\<close>

datatype jsval = JUndefined | JNull | JStr string | JDate int

definition ofNullable :: "string option \<Rightarrow> jsval" where
  "ofNullable v = (case v of None \<Rightarrow> JNull | Some s \<Rightarrow> JStr s)"

definition getProp :: "submission \<Rightarrow> string \<Rightarrow> jsval" where
  "getProp s key =
     (if key = ''id'' then JStr (s_id s)
      else if key = ''name'' then JStr (s_name s)
      else if key = ''email'' then JStr (s_email s)
      else if key = ''message'' then JStr (s_message s)
      else if key = ''submittedAt'' then JDate (s_submittedAt s)
      else if key = ''ipAddress'' then JStr (s_ipAddress s)
      else if key = ''location'' then JStr (s_location s)
      else if key = ''coordinates'' then ofNullable (s_coordinates s)
      else if key = ''googleMapsUrl'' then ofNullable (s_googleMapsUrl s)
      else if key = ''deviceInfo'' then JStr (s_deviceInfo s)
      else if key = ''screenResolution'' then JStr (s_screenResolution s)
      else JUndefined)"

text \<open>\<open>v?.toString()\<close>: absent for \<open>null\<close> and \<open>undefined\<close>.\<close>

definition toStringOpt :: "js_env \<Rightarrow> jsval \<Rightarrow> string option" where
  "toStringOpt env v =
     (case v of
        JUndefined \<Rightarrow> None
      | JNull \<Rightarrow> None
      | JStr s \<Rightarrow> Some s
      | JDate d \<Rightarrow> Some (dateToString env d))"

text \<open>Truthiness of a property value: a \<open>Date\<close> is an object and always truthy.\<close>

definition truthy :: "jsval \<Rightarrow> bool" where
  "truthy v = (case v of JUndefined \<Rightarrow> False | JNull \<Rightarrow> False | JStr s \<Rightarrow> s \<noteq> [] | JDate d \<Rightarrow> True)"

section \<open>AdminDashboard: view state\<close>

datatype direction = Asc | Desc

record sort_config =
  key :: string
  direction :: direction

text \<open>
  \<open>visibleColumns\<close> is an object whose entries are enumerated in insertion order: a list
  of pairs.
\<close>

record dashboard =
  submissions :: "submission list"
  error :: "string option"
  currentPage :: int
  selectedItems :: "string list"
  visibleColumns :: "(string \<times> bool) list"
  searchTerm :: string
  sortConfig :: sort_config

definition initialColumns :: "(string \<times> bool) list" where
  "initialColumns =
     [(''name'', True), (''email'', True), (''message'', True), (''submittedAt'', True),
      (''ipAddress'', True), (''location'', True), (''deviceInfo'', True),
      (''screenResolution'', True)]"

definition initialDashboard :: "submission list \<Rightarrow> dashboard" where
  "initialDashboard rows =
     \<lparr> submissions = rows, error = None, currentPage = 1, selectedItems = [],
       visibleColumns = initialColumns, searchTerm = [],
       sortConfig = \<lparr> key = ''submittedAt'', direction = Desc \<rparr> \<rparr>"

definition toggleColumn :: "string \<Rightarrow> (string \<times> bool) list \<Rightarrow> (string \<times> bool) list" where
  "toggleColumn column prev =
     (if column \<in> set (map fst prev)
      then map (\<lambda>(k, v). if k = column then (k, \<not> v) else (k, v)) prev
      else prev @ [(column, True)])"

definition setSearchTerm :: "string \<Rightarrow> dashboard \<Rightarrow> dashboard" where
  "setSearchTerm t st = st\<lparr>searchTerm := t\<rparr>"

section \<open>AdminDashboard: filter and sort\<close>

definition matchesSearch :: "js_env \<Rightarrow> (string \<times> bool) list \<Rightarrow> string \<Rightarrow> submission \<Rightarrow> bool" where
  "matchesSearch env cols term s =
     list_ex (\<lambda>(k, visible). visible \<and>
        (case toStringOpt env (getProp s k) of
           None \<Rightarrow> False
         | Some str \<Rightarrow> includesStr (toLowerCase str) (toLowerCase term))) cols"

definition filterRows :: "js_env \<Rightarrow> (string \<times> bool) list \<Rightarrow> string \<Rightarrow> submission list \<Rightarrow> submission list" where
  "filterRows env cols term rows = filter (matchesSearch env cols term) rows"

definition handleSort :: "string \<Rightarrow> sort_config \<Rightarrow> sort_config" where
  "handleSort k prev =
     \<lparr> key = k, direction = (if key prev = k \<and> direction prev = Asc then Desc else Asc) \<rparr>"

text \<open>The comparator handed to \<open>sort\<close>.\<close>

definition compareRows :: "js_env \<Rightarrow> sort_config \<Rightarrow> submission \<Rightarrow> submission \<Rightarrow> int" where
  "compareRows env cfg a b =
     (if \<not> truthy (getProp a (key cfg)) \<or> \<not> truthy (getProp b (key cfg)) then 0
      else (case (toStringOpt env (getProp a (key cfg)), toStringOpt env (getProp b (key cfg))) of
              (Some x, Some y) \<Rightarrow>
                (let aValue = toLowerCase x; bValue = toLowerCase y
                 in if direction cfg = Asc then localeCompare env aValue bValue
                    else localeCompare env bValue aValue)
            | _ \<Rightarrow> 0))"

text \<open>
  \<open>Array.prototype.sort\<close> as the V8 engine (Chrome, Node.js) runs it on an array without
  holes. An array of fewer than two elements is left as it is. Otherwise the run at the
  start of the array is counted: it is descending when the second element compares below
  the first, and it goes on while each element compares below its predecessor (descending)
  or not below it (ascending); a descending run is reversed in place. In an array of fewer
  than 64 elements every element after the run is then put into the sorted front by binary
  insertion: it goes before the middle element when it compares below it, after it
  otherwise. An array of 64 elements or more is cut into runs that are merged; that is
  left to the platform (\<open>sortLong\<close>).
\<close>

fun runTail :: "('a \<Rightarrow> 'a \<Rightarrow> int) \<Rightarrow> bool \<Rightarrow> 'a \<Rightarrow> 'a list \<Rightarrow> nat" where
  "runTail cmp isDescending previousElement [] = 0"
| "runTail cmp isDescending previousElement (currentElement # rest) =
     (let order = cmp currentElement previousElement
      in if (if isDescending then order \<ge> 0 else order < 0) then 0
         else Suc (runTail cmp isDescending currentElement rest))"

definition countAndMakeRun :: "('a \<Rightarrow> 'a \<Rightarrow> int) \<Rightarrow> 'a list \<Rightarrow> nat \<times> 'a list" where
  "countAndMakeRun cmp xs =
     (case xs of
        [] \<Rightarrow> (0, xs)
      | [a] \<Rightarrow> (1, xs)
      | elementHigh # elementLow # rest \<Rightarrow>
          (let isDescending = cmp elementLow elementHigh < 0;
               runLength = 2 + runTail cmp isDescending elementLow rest
           in (runLength,
               if isDescending then rev (take runLength xs) @ drop runLength xs else xs)))"

function binarySearch :: "('a \<Rightarrow> 'a \<Rightarrow> int) \<Rightarrow> 'a \<Rightarrow> 'a list \<Rightarrow> nat \<Rightarrow> nat \<Rightarrow> nat" where
  "binarySearch cmp pivot work left right =
     (if left < right then
        (let mid = left + (right - left) div 2
         in if cmp pivot (work ! mid) < 0 then binarySearch cmp pivot work left mid
            else binarySearch cmp pivot work (mid + 1) right)
      else left)"
  by pat_completeness auto
termination
  by (relation "measure (\<lambda>(cmp, pivot, work, left, right). right - left)") auto

declare binarySearch.simps [simp del]

fun binaryInsertionSort :: "('a \<Rightarrow> 'a \<Rightarrow> int) \<Rightarrow> 'a list \<Rightarrow> 'a list \<Rightarrow> 'a list" where
  "binaryInsertionSort cmp front [] = front"
| "binaryInsertionSort cmp front (pivot # rest) =
     (let left = binarySearch cmp pivot front 0 (length front)
      in binaryInsertionSort cmp (take left front @ pivot # drop left front) rest)"

definition sortShort :: "('a \<Rightarrow> 'a \<Rightarrow> int) \<Rightarrow> 'a list \<Rightarrow> 'a list" where
  "sortShort cmp xs =
     (if length xs < 2 then xs
      else (case countAndMakeRun cmp xs of
              (runLength, work) \<Rightarrow>
                binaryInsertionSort cmp (take runLength work) (drop runLength work)))"

definition sortBy :: "js_env \<Rightarrow> (submission \<Rightarrow> submission \<Rightarrow> int) \<Rightarrow> submission list \<Rightarrow> submission list" where
  "sortBy env cmp xs = (if length xs < 64 then sortShort cmp xs else sortLong env cmp xs)"

definition filteredSubmissions :: "js_env \<Rightarrow> dashboard \<Rightarrow> submission list" where
  "filteredSubmissions env st =
     sortBy env (compareRows env (sortConfig st))
       (filterRows env (visibleColumns st) (searchTerm st) (submissions st))"

section \<open>AdminDashboard: pagination\<close>

definition itemsPerPage :: nat where
  "itemsPerPage = 10"

definition totalPages :: "js_env \<Rightarrow> dashboard \<Rightarrow> int" where
  "totalPages env st = \<lceil>real (length (filteredSubmissions env st)) / real itemsPerPage\<rceil>"

text \<open>\<open>xs.slice(start, end)\<close>: a negative index counts from the end.\<close>

definition sliceIndex :: "nat \<Rightarrow> int \<Rightarrow> nat" where
  "sliceIndex n i = (if i < 0 then nat (max (int n + i) 0) else min (nat i) n)"

definition slice :: "'a list \<Rightarrow> int \<Rightarrow> int \<Rightarrow> 'a list" where
  "slice xs start stop =
     (let s = sliceIndex (length xs) start; e = sliceIndex (length xs) stop
      in take (e - s) (drop s xs))"

definition paginatedSubmissions :: "js_env \<Rightarrow> dashboard \<Rightarrow> submission list" where
  "paginatedSubmissions env st =
     slice (filteredSubmissions env st)
       ((currentPage st - 1) * int itemsPerPage) (currentPage st * int itemsPerPage)"

text \<open>
  The two navigation buttons. A disabled button does not run its handler.
\<close>

definition clickPrevious :: "dashboard \<Rightarrow> dashboard" where
  "clickPrevious st =
     (if currentPage st = 1 then st
      else st\<lparr>currentPage := max (currentPage st - 1) 1\<rparr>)"

definition clickNext :: "js_env \<Rightarrow> dashboard \<Rightarrow> dashboard" where
  "clickNext env st =
     (if currentPage st = totalPages env st then st
      else st\<lparr>currentPage := min (currentPage st + 1) (totalPages env st)\<rparr>)"

section \<open>AdminDashboard: bulk delete\<close>

text \<open>
  The store holds the documents; \<open>deleteDoc\<close> removes the document with the given
  identifier. Whether the store rejects the deletion of an identifier is given by
  \<open>rejects\<close> (\<open>Some msg\<close> is a rejection with that message). Every deletion is issued
  before the outcome of any is awaited, so each accepted deletion takes place. Which
  rejection \<open>Promise.all\<close> reports is the first to settle; the model takes the first in
  the order of the selection.
\<close>

definition deleteDoc :: "string \<Rightarrow> doc_data list \<Rightarrow> doc_data list" where
  "deleteDoc i store = filter (\<lambda>d. d_id d \<noteq> i) store"

definition deleteAll :: "(string \<Rightarrow> string option) \<Rightarrow> string list \<Rightarrow> doc_data list \<Rightarrow> doc_data list" where
  "deleteAll rejects ids store =
     foldl (\<lambda>s i. if rejects i = None then deleteDoc i s else s) store ids"

definition handleBulkDelete ::
  "bool \<Rightarrow> (string \<Rightarrow> string option) \<Rightarrow> dashboard \<times> doc_data list \<Rightarrow> dashboard \<times> doc_data list" where
  "handleBulkDelete confirmed rejects w =
     (case w of (st, store) \<Rightarrow>
        if \<not> confirmed then (st, store)
        else (case List.map_filter rejects (selectedItems st) of
                [] \<Rightarrow>
                  (st\<lparr>submissions := filter (\<lambda>s. s_id s \<notin> set (selectedItems st)) (submissions st),
                      selectedItems := []\<rparr>,
                   deleteAll rejects (selectedItems st) store)
              | msg # _ \<Rightarrow>
                  (st\<lparr>error := Some (''Error deleting submissions: '' @ msg)\<rparr>,
                   deleteAll rejects (selectedItems st) store)))"

section \<open>AdminDashboard: export\<close>

definition escapeQuotes :: "string \<Rightarrow> string" where
  "escapeQuotes s = concat (map (\<lambda>c. if c = CHR 0x22 then [CHR 0x22, CHR 0x22] else [c]) s)"

text \<open>
  A cell: a string is quoted; any other value is left to \<open>join\<close>, which renders a
  \<open>Date\<close> by \<open>toString\<close> and \<open>null\<close> and \<open>undefined\<close> as the empty string.
\<close>

definition csvCell :: "js_env \<Rightarrow> jsval \<Rightarrow> string" where
  "csvCell env v =
     (case v of
        JStr s \<Rightarrow> [CHR 0x22] @ escapeQuotes s @ [CHR 0x22]
      | JDate d \<Rightarrow> dateToString env d
      | JNull \<Rightarrow> []
      | JUndefined \<Rightarrow> [])"

definition visibleKeys :: "(string \<times> bool) list \<Rightarrow> string list" where
  "visibleKeys cols = map fst (filter (\<lambda>(k, visible). visible) cols)"

definition csvHeader :: "(string \<times> bool) list \<Rightarrow> string" where
  "csvHeader cols = join '','' (visibleKeys cols)"

definition csvRow :: "js_env \<Rightarrow> (string \<times> bool) list \<Rightarrow> submission \<Rightarrow> string" where
  "csvRow env cols s = join '','' (map (\<lambda>k. csvCell env (getProp s k)) (visibleKeys cols))"

definition csvContent :: "js_env \<Rightarrow> dashboard \<Rightarrow> string" where
  "csvContent env st =
     (let filteredData = filterRows env (visibleColumns st) (searchTerm st) (submissions st)
      in join [CHR 0x0A]
           (csvHeader (visibleColumns st) # map (csvRow env (visibleColumns st)) filteredData))"

text \<open>
  \<open>handleExport\<close>: the state afterwards and the file offered for download (name and
  content); \<open>today\<close> is the date part of the current time in ISO form. No step of the
  serialisation raises on rows of these shapes, so the handler's \<open>catch\<close> is not
  entered and \<open>error\<close> is left as it was.
\<close>

definition handleExport :: "js_env \<Rightarrow> string \<Rightarrow> dashboard \<Rightarrow> dashboard \<times> string \<times> string" where
  "handleExport env today st = (st, ''submissions_'' @ today @ ''.csv'', csvContent env st)"

section \<open>ContactForm: gathering the visitor data\<close>

text \<open>
  The outcome of a \<open>fetch\<close> followed by \<open>json()\<close>: the request itself fails, or a
  response arrives with a status and a body (\<open>None\<close> when the body is not JSON).
\<close>

datatype 'a fetched = NetworkFailure | Response nat "'a option"

definition ok :: "nat \<Rightarrow> bool" where
  "ok status = (200 \<le> status \<and> status \<le> 299)"

record position_coords =
  p_latitude :: int
  p_longitude :: int
  p_accuracy :: int

record geo_body =
  g_city :: "string option"
  g_region :: "string option"
  g_country :: "string option"
  g_postal :: "string option"
  g_timezone :: "string option"

text \<open>
  The browser and the network as one submission sees them: the answer of the IP service
  (the body's \<open>ip\<close> property), the geolocation API, the answer of the IP-geo service for
  the address placed in its URL, the device details, and the two readings of the clock.
\<close>

record browser =
  fetchIp :: "(string option) fetched"
  geolocationSupported :: bool
  currentPosition :: "position_coords option"
  fetchIpInfo :: "string option \<Rightarrow> geo_body fetched"
  device :: device_details
  enrichedAt :: string
  submitTime :: string

datatype geo_error = NotSupported | PositionError

definition getDeviceLocation :: "browser \<Rightarrow> geo_error + position_coords" where
  "getDeviceLocation w =
     (if \<not> geolocationSupported w then Inl NotSupported
      else (case currentPosition w of
              Some position \<Rightarrow> Inr position
            | None \<Rightarrow> Inl PositionError))"

definition deviceLocationOrNull :: "browser \<Rightarrow> int option \<times> int option \<times> int option" where
  "deviceLocationOrNull w =
     (case getDeviceLocation w of
        Inr c \<Rightarrow> (Some (p_latitude c), Some (p_longitude c), Some (p_accuracy c))
      | Inl locationError \<Rightarrow> (None, None, None))"

definition getVisitorData :: "browser \<Rightarrow> visitor_data option" where
  "getVisitorData w =
     (case fetchIp w of
        NetworkFailure \<Rightarrow> None
      | Response ipStatus ipBody \<Rightarrow>
          if \<not> ok ipStatus then None
          else (case ipBody of
                  None \<Rightarrow> None
                | Some ipv \<Rightarrow>
                    (case deviceLocationOrNull w of (la, lo, acc) \<Rightarrow>
                       (case fetchIpInfo w ipv of
                          NetworkFailure \<Rightarrow> None
                        | Response locStatus locBody \<Rightarrow>
                            if \<not> ok locStatus then None
                            else (case locBody of
                                    None \<Rightarrow> None
                                  | Some locationData \<Rightarrow>
                                      Some \<lparr> ip = ipv,
                                             location = Some
                                               \<lparr> latitude = la, longitude = lo, accuracy = acc,
                                                 city = Some (orElse (g_city locationData) ''Unknown''),
                                                 region = Some (orElse (g_region locationData) ''Unknown''),
                                                 country = Some (orElse (g_country locationData) ''Unknown''),
                                                 postal = Some (orElse (g_postal locationData) ''Unknown''),
                                                 timezone = Some (orElse (g_timezone locationData) ''Unknown'') \<rparr>,
                                             deviceDetails = Some (device w),
                                             timestamp = enrichedAt w \<rparr>)))))"

section \<open>ContactForm: saving with retries\<close>

record form_data =
  f_name :: string
  f_email :: string
  f_message :: string

record contact_data =
  c_name :: string
  c_email :: string
  c_message :: string
  c_visitorData :: "visitor_data option"
  c_submittedAt :: string

text \<open>An error as the handler reads it: its \<open>code\<close> property, if any, and its message.\<close>

record fb_error =
  code :: "string option"
  message :: string

datatype add_result = DocRef string | Rejected fb_error

text \<open>
  What the loop did: the number of calls of \<open>addDoc\<close> and the waits, in milliseconds
  and in order.
\<close>

record retry_trace =
  attempts :: nat
  delays :: "nat list"

text \<open>
  How the loop is left: by \<open>break\<close> after a write, by a \<open>throw\<close>, or because its
  condition is false.
\<close>

datatype save_exit = Saved string | Threw fb_error | LoopEnded

definition maxRetries :: nat where
  "maxRetries = 3"

definition permissionError :: fb_error where
  "permissionError =
     \<lparr> code = None, message = ''Permission denied. Please check your Firebase security rules.'' \<rparr>"

definition authError :: fb_error where
  "authError =
     \<lparr> code = None, message = ''Authentication required. Please check your Firebase configuration.'' \<rparr>"

text \<open>
  The loop of \<open>handleSubmit\<close>; \<open>add n\<close> is the outcome of the call of \<open>addDoc\<close> made
  after \<open>n\<close> earlier calls.
\<close>

function saveLoop :: "(nat \<Rightarrow> add_result) \<Rightarrow> nat \<Rightarrow> retry_trace \<Rightarrow> save_exit \<times> retry_trace" where
  "saveLoop add retryCount tr =
     (if retryCount < maxRetries then
        (case add (attempts tr) of
           DocRef i \<Rightarrow> (Saved i, tr\<lparr>attempts := attempts tr + 1\<rparr>)
         | Rejected lastError \<Rightarrow>
             if code lastError = Some ''permission-denied''
             then (Threw permissionError, tr\<lparr>attempts := attempts tr + 1\<rparr>)
             else if code lastError = Some ''unauthenticated''
             then (Threw authError, tr\<lparr>attempts := attempts tr + 1\<rparr>)
             else if retryCount + 1 = maxRetries
             then (Threw lastError, tr\<lparr>attempts := attempts tr + 1\<rparr>)
             else saveLoop add (retryCount + 1)
                    (tr\<lparr>attempts := attempts tr + 1,
                        delays := delays tr @ [2 ^ (retryCount + 1) * 1000]\<rparr>))
      else (LoopEnded, tr))"
  by pat_completeness auto
termination
  by (relation "measure (\<lambda>(add, retryCount, tr). maxRetries - retryCount)") auto

declare saveLoop.simps [simp del]

record form_state =
  formData :: form_data
  isSubmitting :: bool
  submitStatus :: "string option"

definition contactDataOf :: "browser \<Rightarrow> form_data \<Rightarrow> contact_data" where
  "contactDataOf w fd =
     \<lparr> c_name = f_name fd, c_email = f_email fd, c_message = f_message fd,
       c_visitorData = getVisitorData w, c_submittedAt = submitTime w \<rparr>"

text \<open>
  \<open>handleSubmit\<close>: the form state afterwards, how the loop was left and what it did.
  \<open>addDoc n data\<close> is the store's answer to the call made after \<open>n\<close> earlier calls.
\<close>

definition handleSubmit ::
  "browser \<Rightarrow> (nat \<Rightarrow> contact_data \<Rightarrow> add_result) \<Rightarrow> form_state \<Rightarrow> form_state \<times> save_exit \<times> retry_trace" where
  "handleSubmit w addDoc st =
     (case saveLoop (\<lambda>n. addDoc n (contactDataOf w (formData st))) 0 \<lparr> attempts = 0, delays = [] \<rparr> of
        (Saved i, tr) \<Rightarrow>
          (st\<lparr>formData := \<lparr> f_name = [], f_email = [], f_message = [] \<rparr>,
              submitStatus := Some ''success'', isSubmitting := False\<rparr>, Saved i, tr)
      | (Threw e, tr) \<Rightarrow>
          (st\<lparr>submitStatus := Some ''error'', isSubmitting := False\<rparr>, Threw e, tr)
      | (LoopEnded, tr) \<Rightarrow>
          (st\<lparr>submitStatus := None, isSubmitting := False\<rparr>, LoopEnded, tr))"

section \<open>The properties as the specification words them\<close>

text \<open>
  The display string of a location in the specification's words: the members of city,
  region and country that are not missing, in that order.
\<close>

definition locationParts_spec :: "location_data \<Rightarrow> string list" where
  "locationParts_spec l = map the (filter truthyStr [city l, region l, country l])"

text \<open>Reading a quoted cell back: the enclosing quotes go, a doubled quote is one quote.\<close>

fun unescapeQuotes :: "string \<Rightarrow> string" where
  "unescapeQuotes (a # b # s) =
     (if a = CHR 0x22 \<and> b = CHR 0x22 then CHR 0x22 # unescapeQuotes s
      else a # unescapeQuotes (b # s))"
| "unescapeQuotes s = s"

text \<open>A request that did not deliver a body: no response, a status outside 200..299, or no JSON.\<close>

definition fetchFailed :: "'a fetched \<Rightarrow> bool" where
  "fetchFailed r =
     (case r of
        NetworkFailure \<Rightarrow> True
      | Response status body \<Rightarrow> \<not> ok status \<or> (case body of None \<Rightarrow> True | Some b \<Rightarrow> False))"

text \<open>A store error is terminal when its code is permission-denied or unauthenticated.\<close>

definition isTerminal :: "fb_error \<Rightarrow> bool" where
  "isTerminal e = (code e = Some ''permission-denied'' \<or> code e = Some ''unauthenticated'')"

definition transientAt :: "(nat \<Rightarrow> add_result) \<Rightarrow> nat \<Rightarrow> bool" where
  "transientAt add n = (case add n of DocRef i \<Rightarrow> False | Rejected e \<Rightarrow> \<not> isTerminal e)"

definition terminalAt :: "(nat \<Rightarrow> add_result) \<Rightarrow> nat \<Rightarrow> bool" where
  "terminalAt add n = (case add n of DocRef i \<Rightarrow> False | Rejected e \<Rightarrow> isTerminal e)"

text \<open>The error thrown for a terminal store error.\<close>

definition terminalError :: "add_result \<Rightarrow> fb_error option" where
  "terminalError r =
     (case r of
        DocRef i \<Rightarrow> None
      | Rejected e \<Rightarrow>
          if code e = Some ''permission-denied'' then Some permissionError
          else if code e = Some ''unauthenticated'' then Some authError
          else None)"

section \<open>Example data\<close>

fun lexCompare :: "string \<Rightarrow> string \<Rightarrow> int" where
  "lexCompare [] [] = 0"
| "lexCompare [] (b # t) = - 1"
| "lexCompare (a # s) [] = 1"
| "lexCompare (a # s) (b # t) =
     (if (of_char a :: nat) < of_char b then - 1
      else if (of_char b :: nat) < of_char a then 1
      else lexCompare s t)"

text \<open>
  The examples have fewer than 64 rows, so \<open>sortLong\<close> is not reached in them; it is
  set to the sort of short arrays.
\<close>

definition exampleEnv :: js_env where
  "exampleEnv =
     \<lparr> dateToString = (\<lambda>d. ''Date '' @ numToString d),
       parseDate = (\<lambda>s. None),
       localeCompare = lexCompare,
       sortLong = sortShort \<rparr>"

definition cityOnly :: location_data where
  "cityOnly =
     \<lparr> latitude = None, longitude = None, accuracy = None, city = Some ''Colombo'',
       region = None, country = Some [], postal = None, timezone = None \<rparr>"

definition equatorLocation :: location_data where
  "equatorLocation =
     \<lparr> latitude = Some 0, longitude = Some 32, accuracy = Some 10, city = Some ''Kampala'',
       region = None, country = Some ''UG'', postal = None, timezone = None \<rparr>"

definition janeName :: string where
  "janeName = ''Jane '' @ [CHR 0x22] @ ''JJ'' @ [CHR 0x22] @ '' Doe, Esq.''"

definition docA :: doc_data where
  "docA =
     \<lparr> d_id = ''A'', d_name = Some janeName, d_email = Some ''jane@example.com'',
       d_message = None, d_submittedAt = IsNumber 1700000000000, d_visitorData = None \<rparr>"

definition docB :: doc_data where
  "docB =
     \<lparr> d_id = ''B'', d_name = Some ''Bob'', d_email = None,
       d_message = Some ''hello'', d_submittedAt = IsNumber 1700000000001,
       d_visitorData = Some \<lparr> ip = Some ''10.0.0.7'', location = Some cityOnly,
                               deviceDetails = None, timestamp = ''t'' \<rparr> \<rparr>"

definition rowA :: submission where
  "rowA = toSubmission exampleEnv 0 docA"

definition rowB :: submission where
  "rowB = toSubmission exampleEnv 0 docB"

definition hiddenColumns :: "(string \<times> bool) list" where
  "hiddenColumns = foldr toggleColumn (map fst initialColumns) initialColumns"

definition hiddenDashboard :: dashboard where
  "hiddenDashboard = (initialDashboard [rowA, rowB])\<lparr>visibleColumns := hiddenColumns\<rparr>"

definition selectedAB :: dashboard where
  "selectedAB = (initialDashboard [rowA, rowB])\<lparr>selectedItems := [''A'', ''B'']\<rparr>"

definition rejectsB :: "string \<Rightarrow> string option" where
  "rejectsB i = (if i = ''B'' then Some ''unavailable'' else None)"

definition rejectsNone :: "string \<Rightarrow> string option" where
  "rejectsNone i = None"

definition unavailable :: fb_error where
  "unavailable = \<lparr> code = Some ''unavailable'', message = ''The service is unavailable.'' \<rparr>"

definition denied :: fb_error where
  "denied = \<lparr> code = Some ''permission-denied'', message = ''Missing or insufficient permissions.'' \<rparr>"

definition alwaysUnavailable :: "nat \<Rightarrow> contact_data \<Rightarrow> add_result" where
  "alwaysUnavailable n cd = Rejected unavailable"

definition alwaysDenied :: "nat \<Rightarrow> contact_data \<Rightarrow> add_result" where
  "alwaysDenied n cd = Rejected denied"

definition exampleDevice :: device_details where
  "exampleDevice =
     \<lparr> userAgent = Some ''UA'', screenResolution = Some ''1920x1080'', language = Some ''en'',
       deviceTimezone = Some ''UTC'', platform = Some ''Linux'', vendor = Some [],
       cookiesEnabled = True, doNotTrack = None, online = True \<rparr>"

definition exampleGeo :: geo_body where
  "exampleGeo =
     \<lparr> g_city = Some ''Colombo'', g_region = None, g_country = Some ''LK'',
       g_postal = Some [], g_timezone = Some ''Asia/Colombo'' \<rparr>"

text \<open>A browser that refuses the device location; both services answer.\<close>

definition refusingBrowser :: browser where
  "refusingBrowser =
     \<lparr> fetchIp = Response 200 (Some (Some ''10.0.0.7'')),
       geolocationSupported = True,
       currentPosition = None,
       fetchIpInfo = (\<lambda>i. Response 200 (Some exampleGeo)),
       device = exampleDevice,
       enrichedAt = ''2026-01-01T00:00:00.000Z'',
       submitTime = ''2026-01-01T00:00:01.000Z'' \<rparr>"

text \<open>The same browser when the IP-geo service answers 403.\<close>

definition geoFailingBrowser :: browser where
  "geoFailingBrowser = refusingBrowser\<lparr>fetchIpInfo := (\<lambda>i. Response 403 None)\<rparr>"

definition exampleForm :: form_state where
  "exampleForm =
     \<lparr> formData = \<lparr> f_name = ''Jane'', f_email = ''jane@example.com'', f_message = ''hi'' \<rparr>,
       isSubmitting = True, submitStatus = None \<rparr>"

definition manyRows :: "submission list" where
  "manyRows = replicate 20 rowA @ [rowB]"

text \<open>On the third page of 21 rows, a search term is typed that only one row matches.\<close>

definition stalePage :: dashboard where
  "stalePage =
     setSearchTerm ''bob'' (clickNext exampleEnv (clickNext exampleEnv (initialDashboard manyRows)))"

definition emailSort :: sort_config where
  "emailSort = \<lparr> key = ''email'', direction = Asc \<rparr>"

definition deniedSecond :: "nat \<Rightarrow> contact_data \<Rightarrow> add_result" where
  "deniedSecond n cd = (if n = 1 then Rejected denied else Rejected unavailable)"

text \<open>Four rows with the emails c, b, none and a, to be sorted by email.\<close>

definition emailRow :: "string \<Rightarrow> string \<Rightarrow> submission" where
  "emailRow i e =
     \<lparr> s_id = i, s_name = ''n'', s_email = e, s_message = ''m'', s_submittedAt = 0,
       s_ipAddress = [], s_location = ''N/A'', s_coordinates = None, s_googleMapsUrl = None,
       s_deviceInfo = [], s_screenResolution = [] \<rparr>"

definition row0 :: submission where
  "row0 = emailRow ''0'' ''c''"

definition row1 :: submission where
  "row1 = emailRow ''1'' ''b''"

definition row2 :: submission where
  "row2 = emailRow ''2'' []"

definition row3 :: submission where
  "row3 = emailRow ''3'' ''a''"

definition emailDashboard :: dashboard where
  "emailDashboard = (initialDashboard [row0, row1, row2, row3])\<lparr>sortConfig := emailSort\<rparr>"

section \<open>Substrings\<close>

lemma startsWith_iff: "startsWith s t \<longleftrightarrow> (\<exists>post. s = t @ post)"
  by (induction s t rule: startsWith.induct) auto

lemma includesStr_iff: "includesStr s t \<longleftrightarrow> (\<exists>pre post. s = pre @ t @ post)"
proof (induction s)
  case Nil
  then show ?case by auto
next
  case (Cons a s)
  show ?case
  proof
    assume "includesStr (a # s) t"
    then consider "startsWith (a # s) t" | "includesStr s t" by auto
    then show "\<exists>pre post. a # s = pre @ t @ post"
    proof cases
      case 1
      then obtain post where "a # s = t @ post" by (auto simp: startsWith_iff)
      then have "a # s = [] @ t @ post" by simp
      then show ?thesis by blast
    next
      case 2
      then obtain pre post where "s = pre @ t @ post" using Cons.IH by auto
      then have "a # s = (a # pre) @ t @ post" by simp
      then show ?thesis by blast
    qed
  next
    assume "\<exists>pre post. a # s = pre @ t @ post"
    then obtain pre post where eq: "a # s = pre @ t @ post" by auto
    show "includesStr (a # s) t"
    proof (cases pre)
      case Nil
      with eq have "startsWith (a # s) t" by (auto simp: startsWith_iff)
      then show ?thesis by simp
    next
      case (Cons b pre')
      with eq have "s = pre' @ t @ post" by simp
      then have "includesStr s t" using Cons.IH by blast
      then show ?thesis by simp
    qed
  qed
qed

lemma includesStr_empty: "includesStr s []"
proof -
  have "s = [] @ [] @ s" by simp
  then show ?thesis unfolding includesStr_iff by blast
qed

lemma pushIf_eq: "pushIf v parts = parts @ map the (filter truthyStr [v])"
  by (cases v) (auto simp: pushIf_def truthyStr_def)

lemma getLocationString_parts:
  "getLocationString (Some l) =
     (if locationParts_spec l = [] then ''N/A'' else join '', '' (locationParts_spec l))"
  by (simp add: getLocationString_def locationParts_spec_def pushIf_eq Let_def)

section \<open>Location display\<close>

text \<open>
  C10. The display string of a record: an absent location gives "N/A"; otherwise the members
  of city, region and country that are not missing are joined with ", ", and "N/A" is shown
  when none is left. A location with only a city displays exactly the city.
\<close>

theorem location_display_string:
  "getLocationString None = ''N/A'' \<and>
   getLocationString (Some l) =
     (if locationParts_spec l = [] then ''N/A'' else join '', '' (locationParts_spec l)) \<and>
   (\<not> truthyStr (city l) \<and> \<not> truthyStr (region l) \<and> \<not> truthyStr (country l)
      \<longrightarrow> getLocationString (Some l) = ''N/A'') \<and>
   (city l = Some c \<and> c \<noteq> [] \<and> \<not> truthyStr (region l) \<and> \<not> truthyStr (country l)
      \<longrightarrow> getLocationString (Some l) = c)"
  by (simp add: getLocationString_parts) (auto simp: getLocationString_def locationParts_spec_def truthyStr_def)

theorem location_display_string_witness:
  "getLocationString (Some cityOnly) = ''Colombo'' \<and>
   getLocationString (Some (cityOnly\<lparr>city := None\<rparr>)) = ''N/A''"
proof -
  have h1: "city cityOnly = Some ''Colombo'' \<and> ''Colombo'' \<noteq> [] \<and>
      \<not> truthyStr (region cityOnly) \<and> \<not> truthyStr (country cityOnly)"
    by (simp add: cityOnly_def truthyStr_def)
  have h2: "\<not> truthyStr (city (cityOnly\<lparr>city := None\<rparr>)) \<and>
      \<not> truthyStr (region (cityOnly\<lparr>city := None\<rparr>)) \<and>
      \<not> truthyStr (country (cityOnly\<lparr>city := None\<rparr>))"
    by (simp add: cityOnly_def truthyStr_def)
  from h1 location_display_string [of cityOnly "''Colombo''"]
  have "getLocationString (Some cityOnly) = ''Colombo''" by blast
  moreover from h2 location_display_string [of "cityOnly\<lparr>city := None\<rparr>" "[]"]
  have "getLocationString (Some (cityOnly\<lparr>city := None\<rparr>)) = ''N/A''" by blast
  ultimately show ?thesis by blast
qed

section \<open>Coordinates and map link\<close>

lemma getCoordinates_iff:
  "getCoordinates loc = Some c \<longleftrightarrow>
     (\<exists>l la lo. loc = Some l \<and> latitude l = Some la \<and> longitude l = Some lo \<and> la \<noteq> 0 \<and> lo \<noteq> 0
        \<and> c = numToString la @ '', '' @ numToString lo)"
  by (auto simp: getCoordinates_def truthyNum_def split: option.splits)

text \<open>
  C7. Coordinates and the map link are meant to be produced exactly when latitude and
  longitude are both present. A location on the equator has both, with latitude 0: no
  coordinates and no link are produced for it, while the same location one degree north
  gets both.
\<close>

theorem coordinates_zero_latitude_dropped:
  "latitude equatorLocation = Some 0 \<and> longitude equatorLocation = Some 32 \<and>
   getCoordinates (Some equatorLocation) = None \<and>
   getGoogleMapsUrl (Some equatorLocation) = None \<and>
   getCoordinates (Some (equatorLocation\<lparr>latitude := Some 1\<rparr>)) = Some ''1, 32'' \<and>
   getGoogleMapsUrl (Some (equatorLocation\<lparr>latitude := Some 1\<rparr>))
     = Some ''https://www.google.com/maps?q=1, 32''"
proof -
  have n1: "numToString 1 = ''1''"
    by (simp add: numToString_def showNat.simps digitChar_def)
  have n32: "numToString 32 = ''32''"
    by (simp add: numToString_def showNat.simps digitChar_def)
  show ?thesis
    by (simp add: equatorLocation_def getCoordinates_def getGoogleMapsUrl_def truthyNum_def n1 n32)
qed

section \<open>Filter\<close>

lemma dashboard_column_has_string:
  "k \<in> set (map fst initialColumns) \<Longrightarrow> toStringOpt env (getProp s k) \<noteq> None"
  by (auto simp: initialColumns_def getProp_def toStringOpt_def)

lemma matchesSearch_iff:
  "matchesSearch env cols term s \<longleftrightarrow>
     (\<exists>k str. (k, True) \<in> set cols \<and> toStringOpt env (getProp s k) = Some str \<and>
        (\<exists>pre post. toLowerCase str = pre @ toLowerCase term @ post))"
proof
  assume "matchesSearch env cols term s"
  then obtain k visible where kv: "(k, visible) \<in> set cols" "visible"
    and m: "case toStringOpt env (getProp s k) of None \<Rightarrow> False
            | Some str \<Rightarrow> includesStr (toLowerCase str) (toLowerCase term)"
    unfolding matchesSearch_def list_ex_iff by auto
  from m obtain str where "toStringOpt env (getProp s k) = Some str"
    and "includesStr (toLowerCase str) (toLowerCase term)"
    by (auto split: option.splits)
  with kv show "\<exists>k str. (k, True) \<in> set cols \<and> toStringOpt env (getProp s k) = Some str \<and>
        (\<exists>pre post. toLowerCase str = pre @ toLowerCase term @ post)"
    unfolding includesStr_iff by auto
next
  assume "\<exists>k str. (k, True) \<in> set cols \<and> toStringOpt env (getProp s k) = Some str \<and>
        (\<exists>pre post. toLowerCase str = pre @ toLowerCase term @ post)"
  then obtain k str where k: "(k, True) \<in> set cols" "toStringOpt env (getProp s k) = Some str"
    and "includesStr (toLowerCase str) (toLowerCase term)"
    unfolding includesStr_iff by blast
  then have "(\<lambda>(k, visible). visible \<and>
        (case toStringOpt env (getProp s k) of
           None \<Rightarrow> False
         | Some str \<Rightarrow> includesStr (toLowerCase str) (toLowerCase term))) (k, True)"
    by simp
  with k(1) show "matchesSearch env cols term s"
    unfolding matchesSearch_def list_ex_iff by blast
qed

lemma matchesSearch_empty:
  assumes "k \<in> set (map fst initialColumns)" and "(k, True) \<in> set cols"
  shows "matchesSearch env cols [] s"
proof -
  obtain str where "toStringOpt env (getProp s k) = Some str"
    using dashboard_column_has_string [OF assms(1), of env s] by auto
  moreover have "toLowerCase str = [] @ toLowerCase [] @ toLowerCase str"
    by (simp add: toLowerCase_def)
  ultimately show ?thesis
    unfolding matchesSearch_iff using assms(2) by blast
qed

text \<open>
  C5. A record passes the filter if and only if the string of some visible column's field,
  lowered, contains the lowered search term as a substring. With an empty search term every
  record passes, and filtering returns the rows unchanged in order, provided at least one of
  the dashboard's columns is visible; when no column is visible no record passes, whatever
  the term.
\<close>

theorem filter_predicate:
  "(matchesSearch env cols term s \<longleftrightarrow>
     (\<exists>k str. (k, True) \<in> set cols \<and> toStringOpt env (getProp s k) = Some str \<and>
        (\<exists>pre post. toLowerCase str = pre @ toLowerCase term @ post))) \<and>
   ((\<exists>k \<in> set (map fst initialColumns). (k, True) \<in> set cols) \<longrightarrow>
      matchesSearch env cols [] s \<and> filterRows env cols [] rows = rows) \<and>
   ((\<forall>k. (k, True) \<notin> set cols) \<longrightarrow> filterRows env cols term rows = [])"
proof (intro conjI impI)
  show "matchesSearch env cols term s \<longleftrightarrow>
     (\<exists>k str. (k, True) \<in> set cols \<and> toStringOpt env (getProp s k) = Some str \<and>
        (\<exists>pre post. toLowerCase str = pre @ toLowerCase term @ post))"
    by (rule matchesSearch_iff)
next
  assume "\<exists>k \<in> set (map fst initialColumns). (k, True) \<in> set cols"
  then show "matchesSearch env cols [] s" using matchesSearch_empty by blast
next
  assume "\<exists>k \<in> set (map fst initialColumns). (k, True) \<in> set cols"
  then have "\<And>r. matchesSearch env cols [] r" using matchesSearch_empty by blast
  then show "filterRows env cols [] rows = rows" by (simp add: filterRows_def)
next
  assume "\<forall>k. (k, True) \<notin> set cols"
  then have "\<And>r. \<not> matchesSearch env cols term r" unfolding matchesSearch_iff by blast
  then show "filterRows env cols term rows = []" by (simp add: filterRows_def)
qed

lemma hiddenColumns_eq:
  "hiddenColumns =
     [(''name'', False), (''email'', False), (''message'', False), (''submittedAt'', False),
      (''ipAddress'', False), (''location'', False), (''deviceInfo'', False),
      (''screenResolution'', False)]"
  by (simp add: hiddenColumns_def initialColumns_def toggleColumn_def)

theorem filter_predicate_witness:
  "filterRows exampleEnv initialColumns [] [rowA, rowB] = [rowA, rowB] \<and>
   filterRows exampleEnv hiddenColumns ''bob'' [rowA, rowB] = []"
proof -
  have h1: "\<exists>k \<in> set (map fst initialColumns). (k, True) \<in> set initialColumns"
    by (auto simp: initialColumns_def)
  have h2: "\<forall>k. (k, True) \<notin> set hiddenColumns"
    by (simp add: hiddenColumns_eq)
  from h1 filter_predicate [of exampleEnv initialColumns "[]" rowA "[rowA, rowB]"]
  have "filterRows exampleEnv initialColumns [] [rowA, rowB] = [rowA, rowB]" by blast
  moreover from h2 filter_predicate [of exampleEnv hiddenColumns "''bob''" rowA "[rowA, rowB]"]
  have "filterRows exampleEnv hiddenColumns ''bob'' [rowA, rowB] = []" by blast
  ultimately show ?thesis by blast
qed

text \<open>
  C5, as first stated (an empty search term always returns every row): with every column
  switched off, the empty term returns no row.
\<close>

theorem filter_empty_term_hidden_columns:
  "searchTerm hiddenDashboard = [] \<and> submissions hiddenDashboard = [rowA, rowB] \<and>
   filterRows exampleEnv (visibleColumns hiddenDashboard) (searchTerm hiddenDashboard)
     (submissions hiddenDashboard) = [] \<and>
   filterRows exampleEnv (visibleColumns hiddenDashboard) (searchTerm hiddenDashboard)
     (submissions hiddenDashboard) \<noteq> submissions hiddenDashboard"
  by (simp add: hiddenDashboard_def initialDashboard_def hiddenColumns_eq filterRows_def
      matchesSearch_def)

section \<open>Export\<close>

lemma rowA_eq:
  "rowA = \<lparr> s_id = ''A'', s_name = janeName, s_email = ''jane@example.com'', s_message = [],
     s_submittedAt = 1700000000000, s_ipAddress = [], s_location = ''N/A'',
     s_coordinates = None, s_googleMapsUrl = None, s_deviceInfo = [],
     s_screenResolution = [] \<rparr>"
  by (simp add: rowA_def docA_def toSubmission_def orElse_def readSubmittedAt_def
      docLocation_def docDevice_def getLocationString_def getCoordinates_def
      getGoogleMapsUrl_def janeName_def)

lemma rowB_eq:
  "rowB = \<lparr> s_id = ''B'', s_name = ''Bob'', s_email = [], s_message = ''hello'',
     s_submittedAt = 1700000000001, s_ipAddress = ''10.0.0.7'', s_location = ''Colombo'',
     s_coordinates = None, s_googleMapsUrl = None, s_deviceInfo = [],
     s_screenResolution = [] \<rparr>"
  by (simp add: rowB_def docB_def toSubmission_def orElse_def readSubmittedAt_def
      docLocation_def docDevice_def getLocationString_def getCoordinates_def
      getGoogleMapsUrl_def cityOnly_def pushIf_def truthyNum_def)

lemma visibleKeys_initial:
  "visibleKeys initialColumns =
     [''name'', ''email'', ''message'', ''submittedAt'', ''ipAddress'', ''location'',
      ''deviceInfo'', ''screenResolution'']"
  by (simp add: visibleKeys_def initialColumns_def)

lemma date_a: "dateToString exampleEnv 1700000000000 = ''Date 1700000000000''"
  by (simp add: exampleEnv_def numToString_def showNat.simps digitChar_def)

lemma date_b: "dateToString exampleEnv 1700000000001 = ''Date 1700000000001''"
  by (simp add: exampleEnv_def numToString_def showNat.simps digitChar_def)

lemma csvRow_A:
  "csvRow exampleEnv initialColumns rowA =
     [CHR 0x22] @ ''Jane '' @ [CHR 0x22, CHR 0x22] @ ''JJ'' @ [CHR 0x22, CHR 0x22] @ '' Doe, Esq.'' @ [CHR 0x22] @
     '','' @ [CHR 0x22] @ ''jane@example.com'' @ [CHR 0x22] @ '','' @ [CHR 0x22, CHR 0x22] @
     '',Date 1700000000000,'' @ [CHR 0x22, CHR 0x22] @ '','' @ [CHR 0x22] @ ''N/A'' @ [CHR 0x22] @ '','' @
     [CHR 0x22, CHR 0x22] @ '','' @ [CHR 0x22, CHR 0x22]"
  by (simp add: csvRow_def visibleKeys_initial rowA_eq getProp_def csvCell_def escapeQuotes_def
      janeName_def date_a)

lemma csvRow_B:
  "csvRow exampleEnv initialColumns rowB =
     [CHR 0x22] @ ''Bob'' @ [CHR 0x22] @ '','' @ [CHR 0x22, CHR 0x22] @ '','' @ [CHR 0x22] @ ''hello'' @ [CHR 0x22] @
     '',Date 1700000000001,'' @ [CHR 0x22] @ ''10.0.0.7'' @ [CHR 0x22] @ '','' @ [CHR 0x22] @ ''Colombo'' @ [CHR 0x22] @
     '','' @ [CHR 0x22, CHR 0x22] @ '','' @ [CHR 0x22, CHR 0x22]"
  by (simp add: csvRow_def visibleKeys_initial rowB_eq getProp_def csvCell_def escapeQuotes_def
      date_b)

lemma matches_all_initial: "matchesSearch env initialColumns [] r"
  by (rule matchesSearch_empty [of "''name''"]) (simp_all add: initialColumns_def)

lemma csv_example:
  "csvContent exampleEnv (initialDashboard [rowA, rowB]) =
     ''name,email,message,submittedAt,ipAddress,location,deviceInfo,screenResolution'' @ [CHR 0x0A] @
     csvRow exampleEnv initialColumns rowA @ [CHR 0x0A] @ csvRow exampleEnv initialColumns rowB"
  by (simp add: csvContent_def initialDashboard_def csvHeader_def visibleKeys_initial filterRows_def
      matches_all_initial)

lemma unescape_escape: "unescapeQuotes (escapeQuotes v) = v"
proof (induction v)
  case Nil
  then show ?case by (simp add: escapeQuotes_def)
next
  case (Cons c v)
  have step: "escapeQuotes (c # v) =
      (if c = CHR 0x22 then [CHR 0x22, CHR 0x22] else [c]) @ escapeQuotes v"
    by (simp add: escapeQuotes_def)
  show ?case
  proof (cases "c = CHR 0x22")
    case True
    show ?thesis unfolding step using True Cons.IH by simp
  next
    case False
    show ?thesis unfolding step using False Cons.IH by (cases "escapeQuotes v") simp_all
  qed
qed

lemma escape_doubles:
  "length (filter (\<lambda>c. c = CHR 0x22) (escapeQuotes v)) = 2 * length (filter (\<lambda>c. c = CHR 0x22) v)"
  by (induction v) (simp_all add: escapeQuotes_def)

lemma escape_keeps_others:
  "filter (\<lambda>c. c \<noteq> CHR 0x22) (escapeQuotes v) = filter (\<lambda>c. c \<noteq> CHR 0x22) v"
  by (induction v) (simp_all add: escapeQuotes_def)

text \<open>
  C9. The exported text is the header, the names of the visible columns in their declared
  order joined by commas, followed by one row for each record that passes the filter, made
  of the cells of the visible columns only; the lines are joined by newlines. A string
  value is wrapped in double quotes with every inner quote doubled (reading the doubled
  quotes back gives the value again), so the name Jane "JJ" Doe, Esq. becomes
  "Jane ""JJ"" Doe, Esq.". A missing value is empty: nothing for \<open>undefined\<close> and
  \<open>null\<close>, the quoted empty string for a field the document lacks. The export leaves the
  error state as it was.
\<close>

theorem csv_export:
  "csvContent env st =
     join [CHR 0x0A]
       (join '','' (map fst (filter snd (visibleColumns st))) #
        map (\<lambda>s. join '','' (map (\<lambda>k. csvCell env (getProp s k))
                                (map fst (filter snd (visibleColumns st)))))
          (filter (matchesSearch env (visibleColumns st) (searchTerm st)) (submissions st))) \<and>
   csvCell env (JStr v) = [CHR 0x22] @ escapeQuotes v @ [CHR 0x22] \<and>
   unescapeQuotes (escapeQuotes v) = v \<and>
   length (filter (\<lambda>c. c = CHR 0x22) (escapeQuotes v)) = 2 * length (filter (\<lambda>c. c = CHR 0x22) v) \<and>
   csvCell env (JStr janeName) =
     [CHR 0x22] @ ''Jane '' @ [CHR 0x22, CHR 0x22] @ ''JJ'' @ [CHR 0x22, CHR 0x22] @ '' Doe, Esq.'' @ [CHR 0x22] \<and>
   csvCell env JUndefined = [] \<and> csvCell env JNull = [] \<and>
   csvCell env (JStr []) = [CHR 0x22, CHR 0x22] \<and>
   (d_message d = None \<longrightarrow>
      csvCell env (getProp (toSubmission env now d) ''message'') = [CHR 0x22, CHR 0x22]) \<and>
   (d_visitorData d = None \<longrightarrow>
      csvCell env (getProp (toSubmission env now d) ''ipAddress'') = [CHR 0x22, CHR 0x22]) \<and>
   handleExport env today st = (st, ''submissions_'' @ today @ ''.csv'', csvContent env st)"
proof -
  have keys: "visibleKeys (visibleColumns st) = map fst (filter snd (visibleColumns st))"
  proof -
    have "(\<lambda>(k, visible). visible) = (snd :: string \<times> bool \<Rightarrow> bool)" by auto
    then show ?thesis by (simp add: visibleKeys_def)
  qed
  have content: "csvContent env st =
     join [CHR 0x0A]
       (join '','' (map fst (filter snd (visibleColumns st))) #
        map (\<lambda>s. join '','' (map (\<lambda>k. csvCell env (getProp s k))
                                (map fst (filter snd (visibleColumns st)))))
          (filter (matchesSearch env (visibleColumns st) (searchTerm st)) (submissions st)))"
    unfolding csvContent_def Let_def csvHeader_def filterRows_def keys [symmetric]
    by (simp add: csvRow_def [abs_def])
  have jane: "csvCell env (JStr janeName) =
     [CHR 0x22] @ ''Jane '' @ [CHR 0x22, CHR 0x22] @ ''JJ'' @ [CHR 0x22, CHR 0x22] @ '' Doe, Esq.'' @ [CHR 0x22]"
    by (simp add: csvCell_def escapeQuotes_def janeName_def)
  have cells: "csvCell env (JStr v) = [CHR 0x22] @ escapeQuotes v @ [CHR 0x22]"
    "csvCell env JUndefined = []" "csvCell env JNull = []"
    "csvCell env (JStr []) = [CHR 0x22, CHR 0x22]"
    by (simp_all add: csvCell_def escapeQuotes_def)
  have msg: "d_message d = None \<longrightarrow>
      csvCell env (getProp (toSubmission env now d) ''message'') = [CHR 0x22, CHR 0x22]"
    by (simp add: getProp_def toSubmission_def orElse_def csvCell_def escapeQuotes_def)
  have ipa: "d_visitorData d = None \<longrightarrow>
      csvCell env (getProp (toSubmission env now d) ''ipAddress'') = [CHR 0x22, CHR 0x22]"
    by (simp add: getProp_def toSubmission_def orElse_def csvCell_def escapeQuotes_def)
  have ex: "handleExport env today st = (st, ''submissions_'' @ today @ ''.csv'', csvContent env st)"
    by (simp add: handleExport_def)
  show ?thesis
    using content jane cells msg ipa ex unescape_escape [of v] escape_doubles [of v] by blast
qed

theorem csv_export_witness:
  "csvCell exampleEnv (getProp rowA ''message'') = [CHR 0x22, CHR 0x22] \<and>
   csvCell exampleEnv (getProp rowA ''ipAddress'') = [CHR 0x22, CHR 0x22] \<and>
   handleExport exampleEnv ''2026-11-03'' (initialDashboard [rowA, rowB]) =
     (initialDashboard [rowA, rowB], ''submissions_2026-11-03.csv'',
      csvContent exampleEnv (initialDashboard [rowA, rowB]))"
proof -
  have h1: "d_message docA = None" by (simp add: docA_def)
  have h2: "d_visitorData docA = None" by (simp add: docA_def)
  note t = csv_export [of exampleEnv "initialDashboard [rowA, rowB]" "[]" docA 0 "''2026-11-03''"]
  from t h1 have "csvCell exampleEnv (getProp rowA ''message'') = [CHR 0x22, CHR 0x22]"
    unfolding rowA_def by blast
  moreover from t h2 have "csvCell exampleEnv (getProp rowA ''ipAddress'') = [CHR 0x22, CHR 0x22]"
    unfolding rowA_def by blast
  moreover from t have "handleExport exampleEnv ''2026-11-03'' (initialDashboard [rowA, rowB]) =
     (initialDashboard [rowA, rowB], ''submissions_'' @ ''2026-11-03'' @ ''.csv'',
      csvContent exampleEnv (initialDashboard [rowA, rowB]))" by blast
  ultimately show ?thesis by simp
qed


section \<open>Sorting\<close>

lemma binarySearch_stop: "\<not> left < right \<Longrightarrow> binarySearch cmp pivot work left right = left"
  by (subst binarySearch.simps) simp

lemma binarySearch_lower:
  "left < right \<Longrightarrow> cmp pivot (work ! (left + (right - left) div 2)) < 0 \<Longrightarrow>
     binarySearch cmp pivot work left right =
       binarySearch cmp pivot work left (left + (right - left) div 2)"
  by (subst binarySearch.simps) (simp add: Let_def)

lemma binarySearch_upper:
  "left < right \<Longrightarrow> \<not> cmp pivot (work ! (left + (right - left) div 2)) < 0 \<Longrightarrow>
     binarySearch cmp pivot work left right =
       binarySearch cmp pivot work (left + (right - left) div 2 + 1) right"
  by (subst binarySearch.simps) (simp add: Let_def)

lemma length_binaryInsertionSort:
  "length (binaryInsertionSort cmp front rest) = length front + length rest"
  by (induction rest arbitrary: front) (simp_all add: Let_def)

lemma length_countAndMakeRun: "length (snd (countAndMakeRun cmp xs)) = length xs"
  by (auto simp: countAndMakeRun_def Let_def split: list.splits)

lemma length_sortShort: "length (sortShort cmp xs) = length xs"
proof (cases "countAndMakeRun cmp xs")
  case (Pair n work)
  then have "length work = length xs" using length_countAndMakeRun [of cmp xs] by simp
  moreover have "length (take n work) + length (drop n work) = length work"
    by (metis append_take_drop_id length_append)
  ultimately show ?thesis using Pair
    by (simp add: sortShort_def length_binaryInsertionSort del: length_take length_drop)
qed

lemma length_sortBy:
  assumes "\<And>c ys. length (sortLong env c ys) = length ys"
  shows "length (sortBy env cmp xs) = length xs"
  using assms by (simp add: sortBy_def length_sortShort)

lemma exampleEnv_sortLong: "length (sortLong exampleEnv c ys) = length ys"
  by (simp add: exampleEnv_def length_sortShort)

lemma sortBy_short: "length xs < 2 \<Longrightarrow> sortBy env cmp xs = xs"
  by (simp add: sortBy_def sortShort_def)

lemma compareRows_missing:
  "\<not> truthy (getProp a (key cfg)) \<or> \<not> truthy (getProp b (key cfg)) \<Longrightarrow> compareRows env cfg a b = 0"
  by (auto simp: compareRows_def)

text \<open>
  C8. Choosing a sort key sets it; choosing the key that is already the sort key flips the
  direction between ascending and descending, so choosing the same key twice in a row
  toggles it, and choosing a new key gives ascending. When either of two records is missing
  the sort key, the comparator returns 0 for the pair in both orders, and sorting the two
  alone leaves them in the order they had. Among more rows such a pair's relative order is
  not always kept.
\<close>

theorem sort_toggle_and_missing_key:
  "key (handleSort k prev) = k \<and>
   (key prev \<noteq> k \<longrightarrow> direction (handleSort k prev) = Asc) \<and>
   (key prev = k \<longrightarrow> direction (handleSort k prev) = (if direction prev = Asc then Desc else Asc)) \<and>
   direction (handleSort k (handleSort k prev)) \<noteq> direction (handleSort k prev) \<and>
   (\<not> truthy (getProp a (key cfg)) \<or> \<not> truthy (getProp b (key cfg)) \<longrightarrow>
      compareRows env cfg a b = 0 \<and> compareRows env cfg b a = 0 \<and>
      sortBy env (compareRows env cfg) [a, b] = [a, b] \<and>
      sortBy env (compareRows env cfg) [b, a] = [b, a])"
proof -
  have "\<not> truthy (getProp a (key cfg)) \<or> \<not> truthy (getProp b (key cfg)) \<longrightarrow>
      compareRows env cfg a b = 0 \<and> compareRows env cfg b a = 0 \<and>
      sortBy env (compareRows env cfg) [a, b] = [a, b] \<and>
      sortBy env (compareRows env cfg) [b, a] = [b, a]"
  proof
    assume m: "\<not> truthy (getProp a (key cfg)) \<or> \<not> truthy (getProp b (key cfg))"
    then have ab: "compareRows env cfg a b = 0" by (rule compareRows_missing)
    from m have ba: "compareRows env cfg b a = 0" by (auto simp: compareRows_def)
    show "compareRows env cfg a b = 0 \<and> compareRows env cfg b a = 0 \<and>
      sortBy env (compareRows env cfg) [a, b] = [a, b] \<and>
      sortBy env (compareRows env cfg) [b, a] = [b, a]"
      using ab ba by (simp add: sortBy_def sortShort_def countAndMakeRun_def)
  qed
  moreover have "direction (handleSort k (handleSort k prev)) \<noteq> direction (handleSort k prev)"
    by (cases "direction prev") (simp_all add: handleSort_def)
  ultimately show ?thesis by (simp add: handleSort_def)
qed

theorem sort_toggle_and_missing_key_witness:
  "direction (handleSort ''name'' \<lparr> key = ''submittedAt'', direction = Desc \<rparr>) = Asc \<and>
   direction (handleSort ''name'' \<lparr> key = ''name'', direction = Asc \<rparr>) = Desc \<and>
   compareRows exampleEnv emailSort rowA rowB = 0 \<and>
   sortBy exampleEnv (compareRows exampleEnv emailSort) [rowA, rowB] = [rowA, rowB] \<and>
   sortBy exampleEnv (compareRows exampleEnv emailSort) [rowB, rowA] = [rowB, rowA]"
proof -
  have h: "\<not> truthy (getProp rowA (key emailSort)) \<or> \<not> truthy (getProp rowB (key emailSort))"
    by (simp add: emailSort_def rowB_eq getProp_def truthy_def)
  have k1: "key \<lparr> key = ''submittedAt'', direction = Desc \<rparr> \<noteq> ''name''" by simp
  have k2: "key \<lparr> key = ''name'', direction = Asc \<rparr> = ''name''" by simp
  from k1 sort_toggle_and_missing_key [of "''name''" "\<lparr> key = ''submittedAt'', direction = Desc \<rparr>"]
  have "direction (handleSort ''name'' \<lparr> key = ''submittedAt'', direction = Desc \<rparr>) = Asc"
    by blast
  moreover from k2 sort_toggle_and_missing_key [of "''name''" "\<lparr> key = ''name'', direction = Asc \<rparr>"]
  have "direction (handleSort ''name'' \<lparr> key = ''name'', direction = Asc \<rparr>) = Desc"
    by simp
  moreover from h sort_toggle_and_missing_key [of "''name''" "\<lparr> key = ''name'', direction = Asc \<rparr>"
      rowA emailSort rowB exampleEnv]
  have "compareRows exampleEnv emailSort rowA rowB = 0 \<and>
   sortBy exampleEnv (compareRows exampleEnv emailSort) [rowA, rowB] = [rowA, rowB] \<and>
   sortBy exampleEnv (compareRows exampleEnv emailSort) [rowB, rowA] = [rowB, rowA]"
    by blast
  ultimately show ?thesis by blast
qed

lemma email_compare:
  "compareRows exampleEnv emailSort (emailRow i x) (emailRow j y) =
     (if x = [] \<or> y = [] then 0 else lexCompare (toLowerCase x) (toLowerCase y))"
  by (simp add: compareRows_def emailSort_def emailRow_def getProp_def truthy_def
      toStringOpt_def exampleEnv_def)

lemma lower_abc:
  "toLowerCase ''a'' = ''a''" "toLowerCase ''b'' = ''b''" "toLowerCase ''c'' = ''c''"
  by (simp_all add: toLowerCase_def lowerChar_def)

lemma lex_abc:
  "lexCompare ''b'' ''c'' = - 1" "lexCompare ''a'' ''c'' = - 1" "lexCompare ''a'' ''b'' = - 1"
  by simp_all

lemma email_order:
  "compareRows exampleEnv emailSort row1 row0 = - 1"
  "compareRows exampleEnv emailSort row2 row1 = 0"
  "compareRows exampleEnv emailSort row2 row0 = 0"
  "compareRows exampleEnv emailSort row3 row0 = - 1"
  "compareRows exampleEnv emailSort row3 row1 = - 1"
  "compareRows exampleEnv emailSort row3 row2 = 0"
  "compareRows exampleEnv emailSort row2 row3 = 0"
  by (simp_all add: row0_def row1_def row2_def row3_def email_compare lower_abc lex_abc)

text \<open>
  C8, as first stated (a pair with a missing sort key keeps its relative order): of four
  rows with the emails c, b, none and a, sorted by email ascending, the row without email
  stands before the row with email a, the two compare as equal, and in the sorted rows the
  row with email a stands first and the row without email last.
\<close>

theorem sort_moves_row_past_missing_key:
  "\<not> truthy (getProp row2 (key (sortConfig emailDashboard))) \<and>
   compareRows exampleEnv (sortConfig emailDashboard) row2 row3 = 0 \<and>
   compareRows exampleEnv (sortConfig emailDashboard) row3 row2 = 0 \<and>
   submissions emailDashboard = [row0, row1, row2, row3] \<and>
   filteredSubmissions exampleEnv emailDashboard = [row3, row1, row0, row2]"
proof -
  have cfg: "sortConfig emailDashboard = emailSort"
    and subs: "submissions emailDashboard = [row0, row1, row2, row3]"
    by (simp_all add: emailDashboard_def initialDashboard_def)
  have missing: "\<not> truthy (getProp row2 (key emailSort))"
    by (simp add: emailSort_def row2_def emailRow_def getProp_def truthy_def)
  have f: "filterRows exampleEnv (visibleColumns emailDashboard) (searchTerm emailDashboard)
      (submissions emailDashboard) = [row0, row1, row2, row3]"
    by (simp add: emailDashboard_def initialDashboard_def filterRows_def matches_all_initial)
  have run: "countAndMakeRun (compareRows exampleEnv emailSort) [row0, row1, row2, row3] =
      (2, [row1, row0, row2, row3])"
    by (simp add: countAndMakeRun_def email_order)
  have p2: "binarySearch (compareRows exampleEnv emailSort) row2 [row1, row0] 0
      (length [row1, row0]) = 2"
    by (simp add: binarySearch_stop binarySearch_lower binarySearch_upper email_order)
  have p3: "binarySearch (compareRows exampleEnv emailSort) row3 [row1, row0, row2] 0
      (length [row1, row0, row2]) = 0"
    by (simp add: binarySearch_stop binarySearch_lower binarySearch_upper email_order)
  have i1: "binaryInsertionSort (compareRows exampleEnv emailSort) [row1, row0] [row2, row3] =
      binaryInsertionSort (compareRows exampleEnv emailSort) [row1, row0, row2] [row3]"
    by (subst binaryInsertionSort.simps(2), simp only: p2 Let_def) simp
  have i2: "binaryInsertionSort (compareRows exampleEnv emailSort) [row1, row0, row2] [row3] =
      [row3, row1, row0, row2]"
    by (subst binaryInsertionSort.simps(2), simp only: p3 Let_def) simp
  have s: "sortShort (compareRows exampleEnv emailSort) [row0, row1, row2, row3] =
      [row3, row1, row0, row2]"
    by (simp add: sortShort_def run i1 i2 del: binaryInsertionSort.simps)
  have "filteredSubmissions exampleEnv emailDashboard = [row3, row1, row0, row2]"
    unfolding filteredSubmissions_def f cfg by (simp add: sortBy_def s)
  with cfg subs missing email_order show ?thesis by simp
qed

section \<open>Pagination\<close>

lemma ceiling_tenths: "\<lceil>real n / 10\<rceil> = (int n + 9) div 10"
proof -
  have "\<lceil>real n / 10\<rceil> = \<lceil>real_of_int (int n) / real_of_int 10\<rceil>" by simp
  also have "\<dots> = - (- int n div 10)" by (rule ceiling_divide_eq_div)
  also have "\<dots> = (int n + 9) div 10" by presburger
  finally show ?thesis .
qed

lemma totalPages_eq:
  assumes "\<And>c ys. length (sortLong env c ys) = length ys"
  shows "totalPages env st =
     (int (length (filterRows env (visibleColumns st) (searchTerm st) (submissions st))) + 9) div 10"
  by (simp add: totalPages_def filteredSubmissions_def length_sortBy [OF assms] itemsPerPage_def
      ceiling_tenths)

lemma totalPages_example:
  "totalPages exampleEnv st =
     (int (length (filterRows exampleEnv (visibleColumns st) (searchTerm st) (submissions st))) + 9) div 10"
  by (rule totalPages_eq) (rule exampleEnv_sortLong)

lemma totalPages_is_ceiling:
  assumes "\<And>c ys. length (sortLong env c ys) = length ys"
  shows "totalPages env st =
     \<lceil>real (length (filterRows env (visibleColumns st) (searchTerm st) (submissions st))) / 10\<rceil>"
  by (simp add: totalPages_def filteredSubmissions_def length_sortBy [OF assms] itemsPerPage_def)

lemma totalPages_no_match:
  "filterRows env (visibleColumns st) (searchTerm st) (submissions st) = [] \<Longrightarrow> totalPages env st = 0"
  by (simp add: totalPages_def filteredSubmissions_def sortBy_short)

lemma navigation_in_range:
  assumes "1 \<le> currentPage st" and "currentPage st \<le> totalPages env st"
  shows "1 \<le> currentPage (clickNext env st) \<and> currentPage (clickNext env st) \<le> totalPages env st \<and>
         1 \<le> currentPage (clickPrevious st) \<and> currentPage (clickPrevious st) \<le> totalPages env st"
  using assms by (auto simp: clickNext_def clickPrevious_def)

lemma matches_bob_A: "\<not> matchesSearch exampleEnv initialColumns ''bob'' rowA"
  by (simp add: matchesSearch_def initialColumns_def rowA_eq getProp_def toStringOpt_def
      toLowerCase_def lowerChar_def janeName_def date_a)

lemma matches_bob_B: "matchesSearch exampleEnv initialColumns ''bob'' rowB"
  by (simp add: matchesSearch_def initialColumns_def rowB_eq getProp_def toStringOpt_def
      toLowerCase_def lowerChar_def)

lemma filter_manyRows_all: "filterRows env initialColumns [] manyRows = manyRows"
  by (simp add: filterRows_def matches_all_initial)

lemma filter_manyRows_bob: "filterRows exampleEnv initialColumns ''bob'' manyRows = [rowB]"
  by (simp add: filterRows_def manyRows_def matches_bob_A matches_bob_B)

lemma length_manyRows: "length manyRows = 21"
  by (simp add: manyRows_def)

lemma pages_many: "totalPages exampleEnv (initialDashboard manyRows\<lparr>currentPage := p\<rparr>) = 3"
  by (simp add: totalPages_example initialDashboard_def filter_manyRows_all length_manyRows)

lemma third_page:
  "clickNext exampleEnv (clickNext exampleEnv (initialDashboard manyRows))
     = (initialDashboard manyRows)\<lparr>currentPage := 3\<rparr>"
proof -
  have a: "initialDashboard manyRows = (initialDashboard manyRows)\<lparr>currentPage := 1\<rparr>"
    by (simp add: initialDashboard_def)
  have "clickNext exampleEnv (initialDashboard manyRows) = (initialDashboard manyRows)\<lparr>currentPage := 2\<rparr>"
    by (subst a, subst clickNext_def, simp only: pages_many) (simp add: initialDashboard_def)
  moreover have "clickNext exampleEnv ((initialDashboard manyRows)\<lparr>currentPage := 2\<rparr>)
      = (initialDashboard manyRows)\<lparr>currentPage := 3\<rparr>"
    by (subst clickNext_def, simp only: pages_many) (simp add: initialDashboard_def)
  ultimately show ?thesis by simp
qed

text \<open>
  C6. The page count is the ceiling of the filtered count over 10 (\<open>totalPages_is_ceiling\<close>,
  for a sort that keeps the number of rows),
  it is 0 when nothing matches (\<open>totalPages_no_match\<close>), and from a page within
  1..totalPages both buttons stay within it (\<open>navigation_in_range\<close>). Navigation is meant
  to clamp to 1..totalPages. With no rows there are 0 pages and the current page is 1; Next
  is enabled and moves to page 0. On page 3 of 21 rows, a search term that leaves one row
  gives 1 page with the current page still 3; Previous moves to page 2, beyond the only
  page, and the table shows no row.
\<close>

theorem page_navigation_leaves_range:
  "totalPages exampleEnv (initialDashboard []) = 0 \<and>
   currentPage (initialDashboard []) = 1 \<and>
   currentPage (clickNext exampleEnv (initialDashboard [])) = 0 \<and>
   paginatedSubmissions exampleEnv (clickNext exampleEnv (initialDashboard [])) = [] \<and>
   currentPage stalePage = 3 \<and>
   totalPages exampleEnv stalePage = 1 \<and>
   currentPage (clickPrevious stalePage) = 2 \<and>
   paginatedSubmissions exampleEnv (clickPrevious stalePage) = []"
proof -
  have t0: "totalPages exampleEnv (initialDashboard []) = 0"
    by (simp add: totalPages_example initialDashboard_def filterRows_def)
  have c0: "currentPage (initialDashboard []) = 1" by (simp add: initialDashboard_def)
  have n0: "clickNext exampleEnv (initialDashboard []) = (initialDashboard [])\<lparr>currentPage := 0\<rparr>"
    unfolding clickNext_def t0 c0 by simp
  have f0: "filteredSubmissions exampleEnv ((initialDashboard [])\<lparr>currentPage := 0\<rparr>) = []"
    by (simp add: filteredSubmissions_def initialDashboard_def filterRows_def sortBy_short)
  have p0: "paginatedSubmissions exampleEnv (clickNext exampleEnv (initialDashboard [])) = []"
    unfolding n0 paginatedSubmissions_def f0 by (simp add: slice_def)
  have s: "stalePage = (initialDashboard manyRows)\<lparr>currentPage := 3, searchTerm := ''bob''\<rparr>"
    by (simp add: stalePage_def third_page setSearchTerm_def)
  have cs: "currentPage stalePage = 3" by (simp add: s)
  have ts: "totalPages exampleEnv stalePage = 1"
    by (simp add: totalPages_example s initialDashboard_def filter_manyRows_bob)
  have ps: "clickPrevious stalePage = stalePage\<lparr>currentPage := 2\<rparr>"
    by (simp add: clickPrevious_def cs)
  have fs: "filteredSubmissions exampleEnv (stalePage\<lparr>currentPage := 2\<rparr>) = [rowB]"
    by (simp add: filteredSubmissions_def s initialDashboard_def filter_manyRows_bob sortBy_short)
  have pp: "paginatedSubmissions exampleEnv (clickPrevious stalePage) = []"
    unfolding ps paginatedSubmissions_def fs
    by (simp add: slice_def sliceIndex_def itemsPerPage_def)
  show ?thesis using t0 c0 n0 p0 cs ts ps pp by simp
qed

section \<open>Bulk delete\<close>

lemma deleteAll_eq:
  "deleteAll rejects ids store =
     filter (\<lambda>d. \<not> (d_id d \<in> set ids \<and> rejects (d_id d) = None)) store"
proof -
  have "foldl (\<lambda>s i. if rejects i = None then deleteDoc i s else s) store ids =
     filter (\<lambda>d. \<not> (d_id d \<in> set ids \<and> rejects (d_id d) = None)) store"
  proof (induction ids arbitrary: store)
    case Nil
    then show ?case by simp
  next
    case (Cons i ids)
    show ?case
      by (auto simp: Cons.IH deleteDoc_def intro!: filter_cong)
  qed
  then show ?thesis by (simp add: deleteAll_def)
qed

lemma map_filter_Nil_iff: "List.map_filter f xs = [] \<longleftrightarrow> (\<forall>x \<in> set xs. f x = None)"
  by (induction xs) (auto simp: List.map_filter_simps split: option.splits)

text \<open>
  C3. Bulk delete, once confirmed. When the store rejects the deletion of at least one
  selected identifier, an error is surfaced, every accepted deletion has taken place in
  the store and stays, and the in-memory rows and the selection are left as they were. When
  every deletion is accepted, the selected rows are removed from the in-memory rows and
  from the store and the selection is cleared. The selection is thus cleared only when
  every deletion succeeds. Without confirmation nothing changes.
\<close>

theorem bulk_delete_all_or_nothing_view:
  "((\<exists>i \<in> set (selectedItems st). rejects i \<noteq> None) \<longrightarrow>
      error (fst (handleBulkDelete True rejects (st, store))) \<noteq> None \<and>
      submissions (fst (handleBulkDelete True rejects (st, store))) = submissions st \<and>
      selectedItems (fst (handleBulkDelete True rejects (st, store))) = selectedItems st \<and>
      snd (handleBulkDelete True rejects (st, store)) =
        filter (\<lambda>d. \<not> (d_id d \<in> set (selectedItems st) \<and> rejects (d_id d) = None)) store) \<and>
   ((\<forall>i \<in> set (selectedItems st). rejects i = None) \<longrightarrow>
      error (fst (handleBulkDelete True rejects (st, store))) = error st \<and>
      submissions (fst (handleBulkDelete True rejects (st, store))) =
        filter (\<lambda>s. s_id s \<notin> set (selectedItems st)) (submissions st) \<and>
      selectedItems (fst (handleBulkDelete True rejects (st, store))) = [] \<and>
      snd (handleBulkDelete True rejects (st, store)) =
        filter (\<lambda>d. d_id d \<notin> set (selectedItems st)) store) \<and>
   handleBulkDelete False rejects (st, store) = (st, store)"
proof (intro conjI impI)
  assume "\<exists>i \<in> set (selectedItems st). rejects i \<noteq> None"
  then have "List.map_filter rejects (selectedItems st) \<noteq> []"
    by (simp add: map_filter_Nil_iff)
  then obtain msg rest where m: "List.map_filter rejects (selectedItems st) = msg # rest"
    by (cases "List.map_filter rejects (selectedItems st)") auto
  then have r: "handleBulkDelete True rejects (st, store) =
      (st\<lparr>error := Some (''Error deleting submissions: '' @ msg)\<rparr>,
       deleteAll rejects (selectedItems st) store)"
    by (simp add: handleBulkDelete_def)
  show "error (fst (handleBulkDelete True rejects (st, store))) \<noteq> None" by (simp add: r)
  show "submissions (fst (handleBulkDelete True rejects (st, store))) = submissions st"
    by (simp add: r)
  show "selectedItems (fst (handleBulkDelete True rejects (st, store))) = selectedItems st"
    by (simp add: r)
  show "snd (handleBulkDelete True rejects (st, store)) =
        filter (\<lambda>d. \<not> (d_id d \<in> set (selectedItems st) \<and> rejects (d_id d) = None)) store"
    by (simp add: r deleteAll_eq)
next
  assume a: "\<forall>i \<in> set (selectedItems st). rejects i = None"
  then have "List.map_filter rejects (selectedItems st) = []"
    by (simp add: map_filter_Nil_iff)
  then have r: "handleBulkDelete True rejects (st, store) =
      (st\<lparr>submissions := filter (\<lambda>s. s_id s \<notin> set (selectedItems st)) (submissions st),
          selectedItems := []\<rparr>,
       deleteAll rejects (selectedItems st) store)"
    by (simp add: handleBulkDelete_def)
  show "error (fst (handleBulkDelete True rejects (st, store))) = error st" by (simp add: r)
  show "submissions (fst (handleBulkDelete True rejects (st, store))) =
        filter (\<lambda>s. s_id s \<notin> set (selectedItems st)) (submissions st)"
    by (simp add: r)
  show "selectedItems (fst (handleBulkDelete True rejects (st, store))) = []" by (simp add: r)
  show "snd (handleBulkDelete True rejects (st, store)) =
        filter (\<lambda>d. d_id d \<notin> set (selectedItems st)) store"
    using a by (simp add: r deleteAll_eq)
next
  show "handleBulkDelete False rejects (st, store) = (st, store)"
    by (simp add: handleBulkDelete_def)
qed

lemma rowA_id: "s_id rowA = ''A''" by (simp add: rowA_eq)
lemma rowB_id: "s_id rowB = ''B''" by (simp add: rowB_eq)

theorem bulk_delete_all_or_nothing_view_witness:
  "error (fst (handleBulkDelete True rejectsB (selectedAB, [docA, docB]))) \<noteq> None \<and>
   submissions (fst (handleBulkDelete True rejectsB (selectedAB, [docA, docB]))) = [rowA, rowB] \<and>
   selectedItems (fst (handleBulkDelete True rejectsB (selectedAB, [docA, docB]))) = [''A'', ''B''] \<and>
   snd (handleBulkDelete True rejectsB (selectedAB, [docA, docB])) = [docB] \<and>
   submissions (fst (handleBulkDelete True rejectsNone (selectedAB, [docA, docB]))) = [] \<and>
   selectedItems (fst (handleBulkDelete True rejectsNone (selectedAB, [docA, docB]))) = [] \<and>
   snd (handleBulkDelete True rejectsNone (selectedAB, [docA, docB])) = []"
proof -
  have sel: "selectedItems selectedAB = [''A'', ''B'']" "submissions selectedAB = [rowA, rowB]"
    by (simp_all add: selectedAB_def initialDashboard_def)
  have h1: "\<exists>i \<in> set (selectedItems selectedAB). rejectsB i \<noteq> None"
    by (simp add: sel rejectsB_def)
  have h2: "\<forall>i \<in> set (selectedItems selectedAB). rejectsNone i = None"
    by (simp add: rejectsNone_def)
  have ids: "d_id docA = ''A''" "d_id docB = ''B''" by (simp_all add: docA_def docB_def)
  from h1 bulk_delete_all_or_nothing_view [of selectedAB rejectsB "[docA, docB]"]
  have "error (fst (handleBulkDelete True rejectsB (selectedAB, [docA, docB]))) \<noteq> None \<and>
      submissions (fst (handleBulkDelete True rejectsB (selectedAB, [docA, docB]))) = submissions selectedAB \<and>
      selectedItems (fst (handleBulkDelete True rejectsB (selectedAB, [docA, docB]))) = selectedItems selectedAB \<and>
      snd (handleBulkDelete True rejectsB (selectedAB, [docA, docB])) =
        filter (\<lambda>d. \<not> (d_id d \<in> set (selectedItems selectedAB) \<and> rejectsB (d_id d) = None)) [docA, docB]"
    by blast
  then have a: "error (fst (handleBulkDelete True rejectsB (selectedAB, [docA, docB]))) \<noteq> None \<and>
   submissions (fst (handleBulkDelete True rejectsB (selectedAB, [docA, docB]))) = [rowA, rowB] \<and>
   selectedItems (fst (handleBulkDelete True rejectsB (selectedAB, [docA, docB]))) = [''A'', ''B''] \<and>
   snd (handleBulkDelete True rejectsB (selectedAB, [docA, docB])) = [docB]"
    by (simp add: sel ids rejectsB_def)
  from h2 bulk_delete_all_or_nothing_view [of selectedAB rejectsNone "[docA, docB]"]
  have "submissions (fst (handleBulkDelete True rejectsNone (selectedAB, [docA, docB]))) =
        filter (\<lambda>s. s_id s \<notin> set (selectedItems selectedAB)) (submissions selectedAB) \<and>
      selectedItems (fst (handleBulkDelete True rejectsNone (selectedAB, [docA, docB]))) = [] \<and>
      snd (handleBulkDelete True rejectsNone (selectedAB, [docA, docB])) =
        filter (\<lambda>d. d_id d \<notin> set (selectedItems selectedAB)) [docA, docB]"
    by blast
  then have b: "submissions (fst (handleBulkDelete True rejectsNone (selectedAB, [docA, docB]))) = [] \<and>
   selectedItems (fst (handleBulkDelete True rejectsNone (selectedAB, [docA, docB]))) = [] \<and>
   snd (handleBulkDelete True rejectsNone (selectedAB, [docA, docB])) = []"
    by (simp add: sel ids rowA_id rowB_id)
  from a b show ?thesis by blast
qed

text \<open>
  C3, as first stated (a record whose deletion succeeded is removed from the in-memory
  rows although another deletion failed): A and B are selected and the store rejects B;
  A is gone from the store and is still among the in-memory rows.
\<close>

theorem bulk_delete_partial_failure_keeps_view:
  "rejectsB ''A'' = None \<and> rejectsB ''B'' \<noteq> None \<and>
   selectedItems selectedAB = [''A'', ''B''] \<and>
   snd (handleBulkDelete True rejectsB (selectedAB, [docA, docB])) = [docB] \<and>
   rowA \<in> set (submissions (fst (handleBulkDelete True rejectsB (selectedAB, [docA, docB]))))"
proof -
  have sel: "selectedItems selectedAB = [''A'', ''B'']" "submissions selectedAB = [rowA, rowB]"
    by (simp_all add: selectedAB_def initialDashboard_def)
  have r: "handleBulkDelete True rejectsB (selectedAB, [docA, docB]) =
      (selectedAB\<lparr>error := Some (''Error deleting submissions: '' @ ''unavailable'')\<rparr>,
       deleteAll rejectsB [''A'', ''B''] [docA, docB])"
    by (simp add: handleBulkDelete_def sel rejectsB_def)
  have d: "deleteAll rejectsB [''A'', ''B''] [docA, docB] = [docB]"
    by (simp add: deleteAll_def deleteDoc_def rejectsB_def docA_def docB_def)
  show ?thesis by (simp add: r d sel rejectsB_def)
qed

section \<open>Visitor data\<close>

text \<open>
  C4. When the IP-geo lookup fails, \<open>getVisitorData\<close> returns no visitor data at all,
  never a partly filled record. When the device geolocation fails while the IP lookup and
  the IP-geo lookup succeed, latitude, longitude and accuracy are null and the visitor data
  is produced in full: the address, the location with the place names of the IP-geo answer
  (or "Unknown"), the device details and the timestamp.
\<close>

theorem enrichment_failure_asymmetry:
  "((\<forall>i. fetchFailed (fetchIpInfo w i)) \<longrightarrow> getVisitorData w = None) \<and>
   (fetchIp w = Response s1 (Some ipv) \<and> ok s1 \<and>
    fetchIpInfo w ipv = Response s2 (Some g) \<and> ok s2 \<and>
    getDeviceLocation w = Inl e \<longrightarrow>
      getVisitorData w =
        Some \<lparr> ip = ipv,
               location = Some
                 \<lparr> latitude = None, longitude = None, accuracy = None,
                   city = Some (orElse (g_city g) ''Unknown''),
                   region = Some (orElse (g_region g) ''Unknown''),
                   country = Some (orElse (g_country g) ''Unknown''),
                   postal = Some (orElse (g_postal g) ''Unknown''),
                   timezone = Some (orElse (g_timezone g) ''Unknown'') \<rparr>,
               deviceDetails = Some (device w),
               timestamp = enrichedAt w \<rparr>)"
proof (intro conjI impI)
  assume a: "\<forall>i. fetchFailed (fetchIpInfo w i)"
  show "getVisitorData w = None"
  proof (cases "fetchIp w")
    case NetworkFailure
    then show ?thesis by (simp add: getVisitorData_def)
  next
    case (Response st body)
    show ?thesis
    proof (cases body)
      case None
      with Response show ?thesis by (simp add: getVisitorData_def)
    next
      case (Some ipv)
      from a have "fetchFailed (fetchIpInfo w ipv)" by blast
      with Response Some show ?thesis
        by (auto simp: getVisitorData_def fetchFailed_def split: fetched.splits option.splits prod.splits)
    qed
  qed
next
  assume "fetchIp w = Response s1 (Some ipv) \<and> ok s1 \<and>
    fetchIpInfo w ipv = Response s2 (Some g) \<and> ok s2 \<and>
    getDeviceLocation w = Inl e"
  then show "getVisitorData w =
        Some \<lparr> ip = ipv,
               location = Some
                 \<lparr> latitude = None, longitude = None, accuracy = None,
                   city = Some (orElse (g_city g) ''Unknown''),
                   region = Some (orElse (g_region g) ''Unknown''),
                   country = Some (orElse (g_country g) ''Unknown''),
                   postal = Some (orElse (g_postal g) ''Unknown''),
                   timezone = Some (orElse (g_timezone g) ''Unknown'') \<rparr>,
               deviceDetails = Some (device w),
               timestamp = enrichedAt w \<rparr>"
    by (simp add: getVisitorData_def deviceLocationOrNull_def)
qed

theorem enrichment_failure_asymmetry_witness:
  "getVisitorData geoFailingBrowser = None \<and>
   getVisitorData refusingBrowser =
     Some \<lparr> ip = Some ''10.0.0.7'',
            location = Some
              \<lparr> latitude = None, longitude = None, accuracy = None,
                city = Some ''Colombo'', region = Some ''Unknown'', country = Some ''LK'',
                postal = Some ''Unknown'', timezone = Some ''Asia/Colombo'' \<rparr>,
            deviceDetails = Some exampleDevice,
            timestamp = ''2026-01-01T00:00:00.000Z'' \<rparr>"
proof -
  have h1: "\<forall>i. fetchFailed (fetchIpInfo geoFailingBrowser i)"
    by (simp add: geoFailingBrowser_def fetchFailed_def ok_def)
  have h2: "fetchIp refusingBrowser = Response 200 (Some (Some ''10.0.0.7'')) \<and> ok 200 \<and>
    fetchIpInfo refusingBrowser (Some ''10.0.0.7'') = Response 200 (Some exampleGeo) \<and> ok 200 \<and>
    getDeviceLocation refusingBrowser = Inl PositionError"
    by (simp add: refusingBrowser_def ok_def getDeviceLocation_def)
  from h1 enrichment_failure_asymmetry [of geoFailingBrowser]
  have a: "getVisitorData geoFailingBrowser = None" by blast
  from h2 enrichment_failure_asymmetry [of refusingBrowser 200 "Some ''10.0.0.7''" 200 exampleGeo PositionError]
  have "getVisitorData refusingBrowser =
        Some \<lparr> ip = Some ''10.0.0.7'',
               location = Some
                 \<lparr> latitude = None, longitude = None, accuracy = None,
                   city = Some (orElse (g_city exampleGeo) ''Unknown''),
                   region = Some (orElse (g_region exampleGeo) ''Unknown''),
                   country = Some (orElse (g_country exampleGeo) ''Unknown''),
                   postal = Some (orElse (g_postal exampleGeo) ''Unknown''),
                   timezone = Some (orElse (g_timezone exampleGeo) ''Unknown'') \<rparr>,
               deviceDetails = Some (device refusingBrowser),
               timestamp = enrichedAt refusingBrowser \<rparr>"
    by blast
  then have b: "getVisitorData refusingBrowser =
     Some \<lparr> ip = Some ''10.0.0.7'',
            location = Some
              \<lparr> latitude = None, longitude = None, accuracy = None,
                city = Some ''Colombo'', region = Some ''Unknown'', country = Some ''LK'',
                postal = Some ''Unknown'', timezone = Some ''Asia/Colombo'' \<rparr>,
            deviceDetails = Some exampleDevice,
            timestamp = ''2026-01-01T00:00:00.000Z'' \<rparr>"
    by (simp add: exampleGeo_def orElse_def refusingBrowser_def)
  from a b show ?thesis by blast
qed

section \<open>Saving with retries\<close>

lemma step_saved:
  "rc < 3 \<Longrightarrow> add (attempts tr) = DocRef i \<Longrightarrow>
     saveLoop add rc tr = (Saved i, tr\<lparr>attempts := attempts tr + 1\<rparr>)"
  by (subst saveLoop.simps) (simp add: maxRetries_def)

lemma step_terminal:
  "rc < 3 \<Longrightarrow> add (attempts tr) = Rejected e \<Longrightarrow> isTerminal e \<Longrightarrow>
     \<exists>t. terminalError (add (attempts tr)) = Some t \<and>
         saveLoop add rc tr = (Threw t, tr\<lparr>attempts := attempts tr + 1\<rparr>)"
  by (subst saveLoop.simps) (auto simp: maxRetries_def isTerminal_def terminalError_def)

lemma step_transient:
  "rc < 2 \<Longrightarrow> add (attempts tr) = Rejected e \<Longrightarrow> \<not> isTerminal e \<Longrightarrow>
     saveLoop add rc tr =
       saveLoop add (rc + 1)
         (tr\<lparr>attempts := attempts tr + 1, delays := delays tr @ [2 ^ (rc + 1) * 1000]\<rparr>)"
  by (subst saveLoop.simps) (simp add: maxRetries_def isTerminal_def)

lemma step_last:
  "add (attempts tr) = Rejected e \<Longrightarrow> \<not> isTerminal e \<Longrightarrow>
     saveLoop add 2 tr = (Threw e, tr\<lparr>attempts := attempts tr + 1\<rparr>)"
  by (subst saveLoop.simps) (simp add: maxRetries_def isTerminal_def)

lemma transientAtD: "transientAt add n \<Longrightarrow> \<exists>e. add n = Rejected e \<and> \<not> isTerminal e"
  by (cases "add n") (simp_all add: transientAt_def)

lemma terminalAtD: "terminalAt add n \<Longrightarrow> \<exists>e. add n = Rejected e \<and> isTerminal e"
  by (cases "add n") (simp_all add: terminalAt_def)

lemma saveLoop_three_transient:
  assumes "transientAt add 0" "transientAt add 1" "transientAt add 2"
  shows "\<exists>e. add 2 = Rejected e \<and>
           saveLoop add 0 \<lparr> attempts = 0, delays = [] \<rparr> =
             (Threw e, \<lparr> attempts = 3, delays = [2000, 4000] \<rparr>)"
proof -
  from assms obtain e0 e1 e2 where
    e0: "add 0 = Rejected e0" "\<not> isTerminal e0" and
    e1: "add 1 = Rejected e1" "\<not> isTerminal e1" and
    e2: "add 2 = Rejected e2" "\<not> isTerminal e2"
    by (blast dest: transientAtD)
  have s0: "saveLoop add 0 \<lparr> attempts = 0, delays = [] \<rparr> =
           saveLoop add 1 \<lparr> attempts = 1, delays = [2000] \<rparr>"
    using step_transient [of 0 add "\<lparr> attempts = 0, delays = [] \<rparr>" e0] e0 by simp
  have s1: "saveLoop add 1 \<lparr> attempts = 1, delays = [2000] \<rparr> =
           saveLoop add 2 \<lparr> attempts = 2, delays = [2000, 4000] \<rparr>"
    using step_transient [of 1 add "\<lparr> attempts = 1, delays = [2000] \<rparr>" e1] e1
      by (simp add: numeral_2_eq_2)
  have s2: "saveLoop add 2 \<lparr> attempts = 2, delays = [2000, 4000] \<rparr> =
           (Threw e2, \<lparr> attempts = 3, delays = [2000, 4000] \<rparr>)"
    using step_last [of add "\<lparr> attempts = 2, delays = [2000, 4000] \<rparr>" e2] e2 by simp
  show ?thesis using e2(1) s0 s1 s2 by simp
qed

lemma saveLoop_terminal:
  assumes "j < 3" and "\<forall>n<j. transientAt add n" and "terminalAt add j"
  shows "\<exists>t. terminalError (add j) = Some t \<and>
           saveLoop add 0 \<lparr> attempts = 0, delays = [] \<rparr> =
             (Threw t, \<lparr> attempts = j + 1, delays = map (\<lambda>k. 2 ^ k * 1000) [1..<j + 1] \<rparr>)"
proof -
  from assms(3) obtain e where e: "add j = Rejected e" "isTerminal e"
    by (blast dest: terminalAtD)
  from assms(1) consider "j = 0" | "j = 1" | "j = 2" by linarith
  then show ?thesis
  proof cases
    case 1
    with e step_terminal [of 0 add "\<lparr> attempts = 0, delays = [] \<rparr>" e]
    show ?thesis by simp
  next
    case 2
    with assms(2) obtain e0 where e0: "add 0 = Rejected e0" "\<not> isTerminal e0"
      by (auto dest: transientAtD)
    have s0: "saveLoop add 0 \<lparr> attempts = 0, delays = [] \<rparr> =
           saveLoop add 1 \<lparr> attempts = 1, delays = [2000] \<rparr>"
      using step_transient [of 0 add "\<lparr> attempts = 0, delays = [] \<rparr>" e0] e0 by simp
    from 2 e step_terminal [of 1 add "\<lparr> attempts = 1, delays = [2000] \<rparr>" e]
    obtain t where t: "terminalError (add j) = Some t"
      "saveLoop add 1 \<lparr> attempts = 1, delays = [2000] \<rparr> =
         (Threw t, \<lparr> attempts = 2, delays = [2000] \<rparr>)"
      by auto
    have full: "saveLoop add 0 \<lparr> attempts = 0, delays = [] \<rparr> =
         (Threw t, \<lparr> attempts = 2, delays = [2000] \<rparr>)"
      by (simp only: s0 t(2))
    have d: "map (\<lambda>k. 2 ^ k * 1000) [1..<j + 1] = [2000::nat]" using 2 by simp
    have a: "j + 1 = 2" using 2 by simp
    show ?thesis unfolding d unfolding a using t(1) full by blast
  next
    case 3
    with assms(2) have "transientAt add 0" "transientAt add 1" by simp_all
    then obtain e0 e1 where e0: "add 0 = Rejected e0" "\<not> isTerminal e0"
      and e1: "add 1 = Rejected e1" "\<not> isTerminal e1"
      by (blast dest: transientAtD)
    have s0: "saveLoop add 0 \<lparr> attempts = 0, delays = [] \<rparr> =
           saveLoop add 1 \<lparr> attempts = 1, delays = [2000] \<rparr>"
      using step_transient [of 0 add "\<lparr> attempts = 0, delays = [] \<rparr>" e0] e0 by simp
    have s1: "saveLoop add 1 \<lparr> attempts = 1, delays = [2000] \<rparr> =
           saveLoop add 2 \<lparr> attempts = 2, delays = [2000, 4000] \<rparr>"
      using step_transient [of 1 add "\<lparr> attempts = 1, delays = [2000] \<rparr>" e1] e1
      by (simp add: numeral_2_eq_2)
    from 3 e step_terminal [of 2 add "\<lparr> attempts = 2, delays = [2000, 4000] \<rparr>" e]
    obtain t where t: "terminalError (add j) = Some t"
      "saveLoop add 2 \<lparr> attempts = 2, delays = [2000, 4000] \<rparr> =
         (Threw t, \<lparr> attempts = 3, delays = [2000, 4000] \<rparr>)"
      by auto
    have full: "saveLoop add 0 \<lparr> attempts = 0, delays = [] \<rparr> =
         (Threw t, \<lparr> attempts = 3, delays = [2000, 4000] \<rparr>)"
      by (simp only: s0 s1 t(2))
    have d: "map (\<lambda>k. 2 ^ k * 1000) [1..<j + 1] = [2000, 4000::nat]"
      using 3 by (simp add: upt_rec)
    have a: "j + 1 = 3" using 3 by simp
    show ?thesis unfolding d unfolding a using t(1) full by blast
  qed
qed

text \<open>
  C1. When each of the three write attempts fails with an error that is not terminal,
  exactly three attempts are made, the wait before attempt k+1 is 2^k seconds for k = 1, 2,
  that is 2 s and 4 s between the attempts, and after the third attempt its error, the last
  one observed, is thrown to the handler, which reports the status "error".
\<close>

theorem retry_exhaustion:
  "(\<forall>n<3. transientAt (\<lambda>n. addDoc n (contactDataOf w (formData st))) n) \<longrightarrow>
     (\<exists>e. addDoc 2 (contactDataOf w (formData st)) = Rejected e \<and>
        handleSubmit w addDoc st =
          (st\<lparr>submitStatus := Some ''error'', isSubmitting := False\<rparr>, Threw e,
           \<lparr> attempts = 3, delays = map (\<lambda>k. 2 ^ k * 1000) [1, 2] \<rparr>)) \<and>
     delays (snd (snd (handleSubmit w addDoc st))) = [2000, 4000]"
proof
  let ?add = "\<lambda>n. addDoc n (contactDataOf w (formData st))"
  assume a: "\<forall>n<3. transientAt ?add n"
  then have "transientAt ?add 0" "transientAt ?add 1" "transientAt ?add 2" by simp_all
  from saveLoop_three_transient [OF this]
  obtain e where e: "addDoc 2 (contactDataOf w (formData st)) = Rejected e"
    and r: "saveLoop ?add 0 \<lparr> attempts = 0, delays = [] \<rparr> =
             (Threw e, \<lparr> attempts = 3, delays = [2000, 4000] \<rparr>)"
    by blast
  have h: "handleSubmit w addDoc st =
          (st\<lparr>submitStatus := Some ''error'', isSubmitting := False\<rparr>, Threw e,
           \<lparr> attempts = 3, delays = [2000, 4000] \<rparr>)"
    unfolding handleSubmit_def r by simp
  have d: "map (\<lambda>k. 2 ^ k * 1000) [1, 2] = [2000, 4000::nat]" by simp
  show "(\<exists>e. addDoc 2 (contactDataOf w (formData st)) = Rejected e \<and>
        handleSubmit w addDoc st =
          (st\<lparr>submitStatus := Some ''error'', isSubmitting := False\<rparr>, Threw e,
           \<lparr> attempts = 3, delays = map (\<lambda>k. 2 ^ k * 1000) [1, 2] \<rparr>)) \<and>
     delays (snd (snd (handleSubmit w addDoc st))) = [2000, 4000]"
    unfolding d using e h by simp
qed

theorem retry_exhaustion_witness:
  "handleSubmit refusingBrowser alwaysUnavailable exampleForm =
     (exampleForm\<lparr>submitStatus := Some ''error'', isSubmitting := False\<rparr>, Threw unavailable,
      \<lparr> attempts = 3, delays = [2000, 4000] \<rparr>)"
proof -
  have h: "\<forall>n<3. transientAt (\<lambda>n. alwaysUnavailable n (contactDataOf refusingBrowser (formData exampleForm))) n"
    by (simp add: transientAt_def alwaysUnavailable_def isTerminal_def unavailable_def)
  from h retry_exhaustion [of alwaysUnavailable refusingBrowser exampleForm]
  obtain e where "alwaysUnavailable 2 (contactDataOf refusingBrowser (formData exampleForm)) = Rejected e"
    and r: "handleSubmit refusingBrowser alwaysUnavailable exampleForm =
          (exampleForm\<lparr>submitStatus := Some ''error'', isSubmitting := False\<rparr>, Threw e,
           \<lparr> attempts = 3, delays = map (\<lambda>k. 2 ^ k * 1000) [1, 2] \<rparr>)"
    by blast
  then have "e = unavailable" by (simp add: alwaysUnavailable_def)
  with r show ?thesis by simp
qed

text \<open>
  C1, as first stated (waits of 1 s, 2 s and 4 s between the attempts): a store that is
  unavailable at every attempt gives three attempts with the two waits 2000 ms and 4000 ms.
\<close>

theorem retry_delays_not_1_2_4:
  "attempts (snd (snd (handleSubmit refusingBrowser alwaysUnavailable exampleForm))) = 3 \<and>
   delays (snd (snd (handleSubmit refusingBrowser alwaysUnavailable exampleForm))) = [2000, 4000] \<and>
   delays (snd (snd (handleSubmit refusingBrowser alwaysUnavailable exampleForm))) \<noteq> [1000, 2000, 4000]"
proof -
  let ?add = "\<lambda>n. alwaysUnavailable n (contactDataOf refusingBrowser (formData exampleForm))"
  have t: "transientAt ?add 0" "transientAt ?add 1" "transientAt ?add 2"
    by (simp_all add: transientAt_def alwaysUnavailable_def isTerminal_def unavailable_def)
  from saveLoop_three_transient [OF t]
  obtain e where r: "saveLoop ?add 0 \<lparr> attempts = 0, delays = [] \<rparr> =
             (Threw e, \<lparr> attempts = 3, delays = [2000, 4000] \<rparr>)"
    by blast
  show ?thesis unfolding handleSubmit_def r by simp
qed

text \<open>
  C2. When a write attempt, the first or one after transient failures only, fails with a
  permission-denied or unauthenticated error, no further attempt is made: the attempts
  number that one and those before it, and the loop is left at once by throwing the error
  made for that class, which differs from the store's error and from the error of the
  other class; the handler reports the status "error". A terminal failure of the first
  attempt gives exactly one attempt and no wait.
\<close>

theorem terminal_failure_aborts:
  "(j < 3 \<and> (\<forall>n<j. transientAt (\<lambda>n. addDoc n (contactDataOf w (formData st))) n) \<and>
    terminalAt (\<lambda>n. addDoc n (contactDataOf w (formData st))) j \<longrightarrow>
      (\<exists>t. terminalError (addDoc j (contactDataOf w (formData st))) = Some t \<and>
         handleSubmit w addDoc st =
           (st\<lparr>submitStatus := Some ''error'', isSubmitting := False\<rparr>, Threw t,
            \<lparr> attempts = j + 1, delays = map (\<lambda>k. 2 ^ k * 1000) [1..<j + 1] \<rparr>))) \<and>
   (terminalAt (\<lambda>n. addDoc n (contactDataOf w (formData st))) 0 \<longrightarrow>
      attempts (snd (snd (handleSubmit w addDoc st))) = 1 \<and>
      delays (snd (snd (handleSubmit w addDoc st))) = []) \<and>
   (isTerminal e \<longrightarrow>
      (\<exists>t. terminalError (Rejected e) = Some t \<and> t \<noteq> e \<and> (t = permissionError \<or> t = authError))) \<and>
   permissionError \<noteq> authError"
proof (intro conjI impI)
  let ?add = "\<lambda>n. addDoc n (contactDataOf w (formData st))"
  assume a: "j < 3 \<and> (\<forall>n<j. transientAt ?add n) \<and> terminalAt ?add j"
  then have "j < 3" "\<forall>n<j. transientAt ?add n" "terminalAt ?add j" by blast+
  from saveLoop_terminal [OF this]
  obtain t where t: "terminalError (addDoc j (contactDataOf w (formData st))) = Some t"
    and r: "saveLoop ?add 0 \<lparr> attempts = 0, delays = [] \<rparr> =
             (Threw t, \<lparr> attempts = j + 1, delays = map (\<lambda>k. 2 ^ k * 1000) [1..<j + 1] \<rparr>)"
    by blast
  have "handleSubmit w addDoc st =
           (st\<lparr>submitStatus := Some ''error'', isSubmitting := False\<rparr>, Threw t,
            \<lparr> attempts = j + 1, delays = map (\<lambda>k. 2 ^ k * 1000) [1..<j + 1] \<rparr>)"
    unfolding handleSubmit_def r by simp
  with t show "\<exists>t. terminalError (addDoc j (contactDataOf w (formData st))) = Some t \<and>
         handleSubmit w addDoc st =
           (st\<lparr>submitStatus := Some ''error'', isSubmitting := False\<rparr>, Threw t,
            \<lparr> attempts = j + 1, delays = map (\<lambda>k. 2 ^ k * 1000) [1..<j + 1] \<rparr>)"
    by blast
next
  let ?add = "\<lambda>n. addDoc n (contactDataOf w (formData st))"
  assume a: "terminalAt ?add 0"
  have "(0::nat) < 3" "\<forall>n<(0::nat). transientAt ?add n" by simp_all
  from saveLoop_terminal [OF this a]
  obtain t where r: "saveLoop ?add 0 \<lparr> attempts = 0, delays = [] \<rparr> =
             (Threw t, \<lparr> attempts = 0 + 1, delays = map (\<lambda>k. 2 ^ k * 1000) [1..<0 + 1] \<rparr>)"
    by blast
  have h: "handleSubmit w addDoc st =
           (st\<lparr>submitStatus := Some ''error'', isSubmitting := False\<rparr>, Threw t,
            \<lparr> attempts = 0 + 1, delays = map (\<lambda>k. 2 ^ k * 1000) [1..<0 + 1] \<rparr>)"
    unfolding handleSubmit_def r by simp
  show "attempts (snd (snd (handleSubmit w addDoc st))) = 1" by (simp add: h)
  show "delays (snd (snd (handleSubmit w addDoc st))) = []" by (simp add: h)
next
  assume "isTerminal e"
  then show "\<exists>t. terminalError (Rejected e) = Some t \<and> t \<noteq> e \<and> (t = permissionError \<or> t = authError)"
    by (auto simp: isTerminal_def terminalError_def permissionError_def authError_def)
next
  show "permissionError \<noteq> authError"
    by (simp add: permissionError_def authError_def)
qed

theorem terminal_failure_aborts_witness:
  "handleSubmit refusingBrowser alwaysDenied exampleForm =
     (exampleForm\<lparr>submitStatus := Some ''error'', isSubmitting := False\<rparr>, Threw permissionError,
      \<lparr> attempts = 1, delays = [] \<rparr>) \<and>
   handleSubmit refusingBrowser deniedSecond exampleForm =
     (exampleForm\<lparr>submitStatus := Some ''error'', isSubmitting := False\<rparr>, Threw permissionError,
      \<lparr> attempts = 2, delays = [2000] \<rparr>) \<and>
   terminalError (Rejected denied) = Some permissionError \<and> permissionError \<noteq> denied"
proof -
  let ?cd = "contactDataOf refusingBrowser (formData exampleForm)"
  have dt: "isTerminal denied" by (simp add: isTerminal_def denied_def)
  have ut: "\<not> isTerminal unavailable" by (simp add: isTerminal_def unavailable_def)
  have te: "terminalError (Rejected denied) = Some permissionError"
    by (simp add: terminalError_def denied_def)
  have h0: "(0::nat) < 3 \<and> (\<forall>n<0. transientAt (\<lambda>n. alwaysDenied n ?cd) n) \<and>
      terminalAt (\<lambda>n. alwaysDenied n ?cd) 0"
    by (simp add: terminalAt_def alwaysDenied_def dt)
  have h1: "(1::nat) < 3 \<and> (\<forall>n<1. transientAt (\<lambda>n. deniedSecond n ?cd) n) \<and>
      terminalAt (\<lambda>n. deniedSecond n ?cd) 1"
    by (simp add: terminalAt_def transientAt_def deniedSecond_def dt ut)
  from h0 terminal_failure_aborts [of 0 alwaysDenied refusingBrowser exampleForm denied]
  obtain t0 where "terminalError (alwaysDenied 0 ?cd) = Some t0"
    and r0: "handleSubmit refusingBrowser alwaysDenied exampleForm =
           (exampleForm\<lparr>submitStatus := Some ''error'', isSubmitting := False\<rparr>, Threw t0,
            \<lparr> attempts = 0 + 1, delays = map (\<lambda>k. 2 ^ k * 1000) [1..<0 + 1] \<rparr>)"
    by blast
  then have a: "handleSubmit refusingBrowser alwaysDenied exampleForm =
     (exampleForm\<lparr>submitStatus := Some ''error'', isSubmitting := False\<rparr>, Threw permissionError,
      \<lparr> attempts = 1, delays = [] \<rparr>)"
    by (simp add: alwaysDenied_def te)
  from h1 terminal_failure_aborts [of 1 deniedSecond refusingBrowser exampleForm denied]
  obtain t1 where "terminalError (deniedSecond 1 ?cd) = Some t1"
    and r1: "handleSubmit refusingBrowser deniedSecond exampleForm =
           (exampleForm\<lparr>submitStatus := Some ''error'', isSubmitting := False\<rparr>, Threw t1,
            \<lparr> attempts = 1 + 1, delays = map (\<lambda>k. 2 ^ k * 1000) [1..<1 + 1] \<rparr>)"
    by blast
  then have b: "handleSubmit refusingBrowser deniedSecond exampleForm =
     (exampleForm\<lparr>submitStatus := Some ''error'', isSubmitting := False\<rparr>, Threw permissionError,
      \<lparr> attempts = 2, delays = [2000] \<rparr>)"
    by (simp add: deniedSecond_def te)
  from dt terminal_failure_aborts [of 0 alwaysDenied refusingBrowser exampleForm denied]
  have c: "permissionError \<noteq> denied" by (auto simp: te)
  from a b te c show ?thesis by blast
qed

end
